theory Spec2Isabelle
  imports Main "HOL-Library.AList"
begin

section \<open>Data model\<close>

text \<open>
  Module declarations are mutable objects shared by reference between requirements,
  graph nodes and edge attributes, so they live in a store (a list indexed by
  reference) and everything else holds references into it.
\<close>

type_synonym mref = nat

text \<open>A dependency entry of the forge's release metadata or of a \<open>metadata.json\<close>.\<close>

record ForgeDependency =
  dep_name :: string
  version_requirement :: "string option"

text \<open>
  \<open>gitDependencies\<close> is the \<open>dependencies\<close> entry of the metadata read from the
  module's repository (absent for a forge module).
\<close>

record ModuleDeclaration =
  name :: string
  author :: string
  forgeModule :: bool
  version :: "string option"
  git :: "string option"
  ref :: "string option"
  comments :: "string list option"
  forgeApiUrl :: "string option"
  gitDependencies :: "ForgeDependency list option"

type_synonym heap = "ModuleDeclaration list"

datatype RequirementSource = Puppetfile | Dependency

text \<open>
  A semver \<open>Range\<close> object: the text it was constructed from (its \<open>raw\<close> property) and
  its \<open>range\<close> property, the text as the library normalises it.
\<close>

datatype Range = Range (raw_text: string) (range_text: string)

record Requirement =
  targetModule :: "mref option"
  sourceModule :: "mref option"
  source :: "RequirementSource option"
  dependencyRange :: "Range option"

text \<open>
  What the program throws. A \<open>TypeError\<close> is what the \<open>Range\<close> constructor throws and
  a \<open>RangeError\<close> what \<open>Date.toISOString\<close> throws; both carry the text that was
  refused, not the message of the library.
\<close>

datatype error =
    Thrown string
  | NoVersionFoundError string
  | DeprecatedModuleError string
  | GraphError string
  | ForgeUnavailable string
  | TypeError string
  | RangeError string

text \<open>
  The libraries the program calls are inputs of the model: for a text, the \<open>range\<close>
  property of \<open>new Range(text)\<close>, or nothing when the constructor throws; what
  \<open>satisfies(version, range)\<close> answers; and for a text, what
  \<open>new Date(text).toISOString()\<close> gives, or nothing when it throws.
\<close>

record Libraries =
  rangeText :: "string \<Rightarrow> string option"
  satisfies :: "string \<Rightarrow> Range \<Rightarrow> bool"
  toISOString :: "string \<Rightarrow> string option"

definition new_Range :: "Libraries \<Rightarrow> string \<Rightarrow> error + Range" where
  "new_Range lib w =
     (case rangeText lib w of None \<Rightarrow> Inl (TypeError w) | Some n \<Rightarrow> Inr (Range w n))"

text \<open>JavaScript truthiness of an optional string: set and not empty.\<close>

fun truthy :: "string option \<Rightarrow> bool" where
  "truthy None = False"
| "truthy (Some s) = (s \<noteq> [])"

text \<open>\<open>String.split\<close> at every character matching \<open>p\<close>; the result is never empty.\<close>

fun split_when :: "(char \<Rightarrow> bool) \<Rightarrow> string \<Rightarrow> string list" where
  "split_when p [] = [[]]"
| "split_when p (x # xs) =
     (if p x then [] # split_when p xs
      else (case split_when p xs of [] \<Rightarrow> [[x]] | w # ws \<Rightarrow> (x # w) # ws))"

definition getSlug :: "ModuleDeclaration \<Rightarrow> string" where
  "getSlug m = author m @ ''-'' @ name m"

definition slugOf :: "heap \<Rightarrow> mref \<Rightarrow> string" where
  "slugOf hp r = getSlug (hp ! r)"

definition new_Requirement :: Requirement where
  "new_Requirement =
     \<lparr>targetModule = None, sourceModule = None, source = None, dependencyRange = None\<rparr>"

section \<open>Requirement builders\<close>

definition withTargetModule ::
  "Libraries \<Rightarrow> heap \<Rightarrow> mref \<Rightarrow> Requirement \<Rightarrow> error + Requirement" where
  "withTargetModule lib hp declaration r =
     (let r1 = r\<lparr>targetModule := Some declaration\<rparr>
      in if truthy (version (hp ! declaration)) \<and> dependencyRange r1 = None
         then (case new_Range lib (''<= '' @ the (version (hp ! declaration))) of
                 Inl e \<Rightarrow> Inl e
               | Inr rg \<Rightarrow> Inr (r1\<lparr>dependencyRange := Some rg\<rparr>))
         else Inr r1)"

definition withSource :: "RequirementSource \<Rightarrow> Requirement \<Rightarrow> Requirement" where
  "withSource v r = r\<lparr>source := Some v\<rparr>"

definition withSourceModule :: "mref option \<Rightarrow> Requirement \<Rightarrow> Requirement" where
  "withSourceModule v r = r\<lparr>sourceModule := v\<rparr>"

definition withDependencyRange :: "Range \<Rightarrow> Requirement \<Rightarrow> Requirement" where
  "withDependencyRange v r = r\<lparr>dependencyRange := Some v\<rparr>"

text \<open>\<open>Requirement.isValid\<close> never returns false: it returns true or throws.\<close>

definition req_isValid :: "Requirement \<Rightarrow> error + bool" where
  "req_isValid r =
     (if source r = Some Dependency \<and> sourceModule r = None
        then Inl (Thrown ''Requirement has no source module'')
      else if targetModule r = None
        then Inl (Thrown ''Requirement has no target module'')
      else if dependencyRange r = None
        then Inl (Thrown ''Requirement has no dependency range'')
      else Inr True)"

section \<open>Requirements store\<close>

type_synonym RequirementsStore = "Requirement list"

definition addRequirement :: "Requirement \<Rightarrow> RequirementsStore \<Rightarrow> RequirementsStore" where
  "addRequirement r st = st @ [r]"

definition hasNextRequirement :: "RequirementsStore \<Rightarrow> bool" where
  "hasNextRequirement st = (length st > 0)"

text \<open>\<open>Array.shift\<close>: the head (or undefined) and the remaining queue.\<close>

fun getNextRequirement :: "RequirementsStore \<Rightarrow> Requirement option \<times> RequirementsStore" where
  "getNextRequirement [] = (None, [])"
| "getNextRequirement (r # rs) = (Some r, rs)"

definition or_empty :: "string option \<Rightarrow> string" where
  "or_empty v = (case v of None \<Rightarrow> [] | Some s \<Rightarrow> s)"

text \<open>
  A parsed Puppetfile: the top-level modules and the dependent modules (those after
  the dependency sentinel), both in declaration order.
\<close>

record PuppetFile =
  pf_modules :: "mref list"
  pf_dependentModules :: "mref list"
  pf_forge :: string
  pf_preamble :: string

text \<open>
  The requirement \<open>withPuppetFile\<close> builds for a module: the target is set first, which
  constructs the range \<open><= version\<close> when the module has a version, then the source, then
  the range \<open>=version\<close> is constructed and set. Either construction may throw.
\<close>

definition puppetfileRequirement :: "Libraries \<Rightarrow> heap \<Rightarrow> mref \<Rightarrow> error + Requirement" where
  "puppetfileRequirement lib hp m =
     (case withTargetModule lib hp m new_Requirement of
        Inl e \<Rightarrow> Inl e
      | Inr r1 \<Rightarrow>
          (case new_Range lib (''='' @ or_empty (version (hp ! m))) of
             Inl e \<Rightarrow> Inl e
           | Inr rg \<Rightarrow> Inr (withDependencyRange rg (withSource Puppetfile r1))))"

fun addPuppetfileRequirements ::
  "Libraries \<Rightarrow> heap \<Rightarrow> mref list \<Rightarrow> RequirementsStore \<Rightarrow> error + RequirementsStore" where
  "addPuppetfileRequirements lib hp [] st = Inr st"
| "addPuppetfileRequirements lib hp (m # ms) st =
     (case puppetfileRequirement lib hp m of
        Inl e \<Rightarrow> Inl e
      | Inr r \<Rightarrow> addPuppetfileRequirements lib hp ms (addRequirement r st))"

definition store_withPuppetFile ::
  "Libraries \<Rightarrow> heap \<Rightarrow> PuppetFile \<Rightarrow> RequirementsStore \<Rightarrow> error + RequirementsStore" where
  "store_withPuppetFile lib hp pf st = addPuppetfileRequirements lib hp (pf_modules pf) st"

text \<open>\<open>n\<close> calls of \<open>getNextRequirement\<close>: what each returned, and the queue left.\<close>

fun dequeues :: "nat \<Rightarrow> RequirementsStore \<Rightarrow> Requirement option list \<times> RequirementsStore" where
  "dequeues 0 st = ([], st)"
| "dequeues (Suc n) st =
     (case getNextRequirement st of
        (r, st1) \<Rightarrow> (case dequeues n st1 of (rs, st2) \<Rightarrow> (r # rs, st2)))"

definition keepsSource :: "heap \<Rightarrow> string \<Rightarrow> Requirement \<Rightarrow> bool" where
  "keepsSource hp sourceSlug v =
     (case sourceModule v of None \<Rightarrow> False | Some s \<Rightarrow> slugOf hp s \<noteq> sourceSlug)"

definition deleteSourceRequirements ::
  "heap \<Rightarrow> string \<Rightarrow> RequirementsStore \<Rightarrow> RequirementsStore" where
  "deleteSourceRequirements hp sourceSlug st = filter (keepsSource hp sourceSlug) st"

text \<open>
  \<open>updateTargetVersion\<close> writes through the target references of the queued
  requirements, so it changes the module store, not the queue.
\<close>

fun updateTargetVersion :: "string \<Rightarrow> string \<Rightarrow> RequirementsStore \<Rightarrow> heap \<Rightarrow> heap" where
  "updateTargetVersion slug v [] hp = hp"
| "updateTargetVersion slug v (r # rs) hp =
     updateTargetVersion slug v rs
       (case targetModule r of
          None \<Rightarrow> hp
        | Some t \<Rightarrow> if slugOf hp t = slug then hp[t := (hp ! t)\<lparr>version := Some v\<rparr>] else hp)"

section \<open>Dependency graph\<close>

text \<open>
  The graph is a graphology \<open>DirectedGraph\<close>: nodes and edges in insertion order,
  an edge carrying its key, its end points and the requirement's attributes. The
  library's operations throw on a missing node; that is the \<open>GraphError\<close> branch.
\<close>

record GNode =
  node_key :: string
  node_module :: "mref option"

record GEdge =
  edge_key :: string
  edge_source :: string
  edge_target :: string
  edge_attrs :: Requirement

record DependencyGraph =
  nodes :: "GNode list"
  edges :: "GEdge list"

definition empty_graph :: DependencyGraph where
  "empty_graph = \<lparr>nodes = [], edges = []\<rparr>"

definition hasNode :: "DependencyGraph \<Rightarrow> string \<Rightarrow> bool" where
  "hasNode g k = (k \<in> set (map node_key (nodes g)))"

definition hasEdge :: "DependencyGraph \<Rightarrow> string \<Rightarrow> bool" where
  "hasEdge g k = (k \<in> set (map edge_key (edges g)))"

definition inEdgesOf :: "DependencyGraph \<Rightarrow> string \<Rightarrow> GEdge list" where
  "inEdgesOf g k = filter (\<lambda>e. edge_target e = k) (edges g)"

definition outEdgesOf :: "DependencyGraph \<Rightarrow> string \<Rightarrow> GEdge list" where
  "outEdgesOf g k = filter (\<lambda>e. edge_source e = k) (edges g)"

definition addNode :: "DependencyGraph \<Rightarrow> string \<Rightarrow> mref option \<Rightarrow> error + DependencyGraph" where
  "addNode g k m =
     (if hasNode g k then Inl (GraphError ''addNode: the node already exists'')
      else Inr (g\<lparr>nodes := nodes g @ [\<lparr>node_key = k, node_module = m\<rparr>]\<rparr>))"

definition addDirectedEdgeWithKey ::
  "DependencyGraph \<Rightarrow> string \<Rightarrow> string \<Rightarrow> string \<Rightarrow> Requirement \<Rightarrow> error + DependencyGraph" where
  "addDirectedEdgeWithKey g k s t a =
     (if \<not> hasNode g s \<or> \<not> hasNode g t
        then Inl (GraphError ''addDirectedEdgeWithKey: node not found'')
      else if hasEdge g k \<or> (\<exists>e \<in> set (edges g). edge_source e = s \<and> edge_target e = t)
        then Inl (GraphError ''addDirectedEdgeWithKey: the edge already exists'')
      else Inr (g\<lparr>edges := edges g @
                  [\<lparr>edge_key = k, edge_source = s, edge_target = t, edge_attrs = a\<rparr>]\<rparr>))"

definition dropNode :: "DependencyGraph \<Rightarrow> string \<Rightarrow> error + DependencyGraph" where
  "dropNode g k =
     (if \<not> hasNode g k then Inl (GraphError ''dropNode: node not found'')
      else Inr \<lparr>nodes = filter (\<lambda>n. node_key n \<noteq> k) (nodes g),
                edges = filter (\<lambda>e. edge_source e \<noteq> k \<and> edge_target e \<noteq> k) (edges g)\<rparr>)"

definition everyInEdge :: "DependencyGraph \<Rightarrow> string \<Rightarrow> (GEdge \<Rightarrow> bool) \<Rightarrow> error + bool" where
  "everyInEdge g k p =
     (if \<not> hasNode g k then Inl (GraphError ''everyInEdge: node not found'')
      else Inr (list_all p (inEdgesOf g k)))"

definition someInEdge :: "DependencyGraph \<Rightarrow> string \<Rightarrow> (GEdge \<Rightarrow> bool) \<Rightarrow> error + bool" where
  "someInEdge g k p =
     (if \<not> hasNode g k then Inl (GraphError ''someInEdge: node not found'')
      else Inr (list_ex p (inEdgesOf g k)))"

text \<open>
  \<open>DependencyGraph.isValid\<close>. The callback returns true when the module's version is
  falsy, and otherwise what \<open>satisfies\<close> of the semver library says; that function
  is the parameter \<open>sat\<close>. An edge without a range does not satisfy any version.
\<close>

definition edgeSatisfied :: "(string \<Rightarrow> Range \<Rightarrow> bool) \<Rightarrow> ModuleDeclaration \<Rightarrow> GEdge \<Rightarrow> bool" where
  "edgeSatisfied sat m e =
     (if \<not> truthy (version m) then True
      else (case dependencyRange (edge_attrs e) of
              None \<Rightarrow> False
            | Some rg \<Rightarrow> sat (the (version m)) rg))"

definition isValid ::
  "(string \<Rightarrow> Range \<Rightarrow> bool) \<Rightarrow> DependencyGraph \<Rightarrow> ModuleDeclaration \<Rightarrow> error + bool" where
  "isValid sat g m = everyInEdge g (getSlug m) (edgeSatisfied sat m)"

section \<open>Forge cache\<close>

text \<open>
  The forge is the remote registry: what \<open>GET /v3/modules/<slug>\<close> and
  \<open>GET /v3/releases/<slug>-<version>\<close> answer. It is an input of the model; a request
  for an entry it does not have is the transport error. The cache keeps what was
  fetched, and its release lists are shortened and extended by the version search.
\<close>

record ModuleData =
  md_releases :: "string list option"
  deprecated_at :: "string option"
  deprecated_for :: "string option"
  superseded_by :: "string option"

record Forge =
  forge_modules :: "(string \<times> ModuleData) list"
  forge_releases :: "(string \<times> ForgeDependency list) list"

record ForgeCache =
  c_releases :: "(string \<times> string list) list"
  c_forgeModuleData :: "(string \<times> ModuleData) list"
  c_dependencies :: "(string \<times> ForgeDependency list) list"

definition empty_cache :: ForgeCache where
  "empty_cache = \<lparr>c_releases = [], c_forgeModuleData = [], c_dependencies = []\<rparr>"

definition getModuleData ::
  "Forge \<Rightarrow> string \<Rightarrow> string \<Rightarrow> ForgeCache \<Rightarrow> error + (ModuleData \<times> ForgeCache)" where
  "getModuleData fg a n c =
     (let slug = a @ ''-'' @ n
      in case map_of (c_forgeModuleData c) slug of
           Some d \<Rightarrow> Inr (d, c)
         | None \<Rightarrow>
             (case map_of (forge_modules fg) slug of
                None \<Rightarrow> Inl (ForgeUnavailable (''/v3/modules/'' @ slug))
              | Some d \<Rightarrow>
                  Inr (d, c\<lparr>c_forgeModuleData := AList.update slug d (c_forgeModuleData c)\<rparr>)))"

definition getReleases ::
  "Forge \<Rightarrow> string \<Rightarrow> string \<Rightarrow> ForgeCache \<Rightarrow> error + (string list \<times> ForgeCache)" where
  "getReleases fg a n c =
     (let slug = a @ ''-'' @ n
      in case map_of (c_releases c) slug of
           Some l \<Rightarrow> Inr (l, c)
         | None \<Rightarrow>
             (case getModuleData fg a n c of
                Inl e \<Rightarrow> Inl e
              | Inr (d, c1) \<Rightarrow>
                  (let l = (case md_releases d of None \<Rightarrow> [] | Some rs \<Rightarrow> rs)
                   in Inr (l, c1\<lparr>c_releases := AList.update slug l (c_releases c1)\<rparr>))))"

definition updateAvailableReleases ::
  "string \<Rightarrow> string \<Rightarrow> string list \<Rightarrow> ForgeCache \<Rightarrow> ForgeCache" where
  "updateAvailableReleases a n l c =
     c\<lparr>c_releases := AList.update (a @ ''-'' @ n) l (c_releases c)\<rparr>"

definition cache_getDependencies ::
  "Forge \<Rightarrow> string \<Rightarrow> string \<Rightarrow> string \<Rightarrow> ForgeCache
     \<Rightarrow> error + (ForgeDependency list \<times> ForgeCache)" where
  "cache_getDependencies fg a n v c =
     (let slug = a @ ''-'' @ n @ ''-'' @ v
      in case map_of (c_dependencies c) slug of
           Some ds \<Rightarrow> Inr (ds, c)
         | None \<Rightarrow>
             (case map_of (forge_releases fg) slug of
                None \<Rightarrow> Inl (ForgeUnavailable (''/v3/releases/'' @ slug))
              | Some ds \<Rightarrow> Inr (ds, c\<lparr>c_dependencies := AList.update slug ds (c_dependencies c)\<rparr>)))"

text \<open>
  The deprecation status of a module: the text its date was constructed from, the
  reason and the slug of the superseding module.
\<close>

record DeprecationStatus =
  deprecatedAt :: string
  deprecatedFor :: string
  supersededBy :: string

definition cache_getDeprecationStatus ::
  "Forge \<Rightarrow> string \<Rightarrow> string \<Rightarrow> ForgeCache
     \<Rightarrow> error + (DeprecationStatus option \<times> ForgeCache)" where
  "cache_getDeprecationStatus fg a n c =
     (case getModuleData fg a n c of
        Inl e \<Rightarrow> Inl e
      | Inr (d, c1) \<Rightarrow>
          if truthy (deprecated_at d)
          then Inr (Some \<lparr>deprecatedAt = or_empty (deprecated_at d),
                           deprecatedFor = or_empty (deprecated_for d),
                           supersededBy = or_empty (superseded_by d)\<rparr>, c1)
          else Inr (None, c1))"

text \<open>\<open>DeprecationStatus.toString\<close>; \<open>toISOString\<close> throws on a date that is not valid.\<close>

definition status_toString :: "Libraries \<Rightarrow> DeprecationStatus \<Rightarrow> error + string" where
  "status_toString lib st =
     (case toISOString lib (deprecatedAt st) of
        None \<Rightarrow> Inl (RangeError (deprecatedAt st))
      | Some d \<Rightarrow>
          Inr (''Module was deprecated at '' @ d @ '' by '' @ supersededBy st @ '': ''
                 @ deprecatedFor st))"

section \<open>Module declaration: the release list\<close>

definition no_forge_url :: error where
  "no_forge_url = Thrown ''Can not fetch versions. No forge API URL set.''"

definition getAvailableVersions ::
  "Forge \<Rightarrow> ModuleDeclaration \<Rightarrow> ForgeCache \<Rightarrow> error + (string list \<times> ForgeCache)" where
  "getAvailableVersions fg m c =
     (if \<not> truthy (forgeApiUrl m) then Inl no_forge_url
      else getReleases fg (author m) (name m) c)"

definition hasAvailableVersion ::
  "Forge \<Rightarrow> ModuleDeclaration \<Rightarrow> ForgeCache \<Rightarrow> error + (bool \<times> ForgeCache)" where
  "hasAvailableVersion fg m c =
     (if \<not> truthy (forgeApiUrl m) then Inl no_forge_url
      else case getAvailableVersions fg m c of
             Inl e \<Rightarrow> Inl e
           | Inr (l, c1) \<Rightarrow> Inr (length l > 0, c1))"

text \<open>\<open>versions.shift()\<close>: the head, or undefined on an empty list.\<close>

definition getNextAvailableVersion ::
  "Forge \<Rightarrow> ModuleDeclaration \<Rightarrow> ForgeCache \<Rightarrow> error + (string option \<times> ForgeCache)" where
  "getNextAvailableVersion fg m c =
     (if \<not> truthy (forgeApiUrl m) then Inl no_forge_url
      else case getAvailableVersions fg m c of
             Inl e \<Rightarrow> Inl e
           | Inr (l, c1) \<Rightarrow>
               (case l of
                  [] \<Rightarrow> Inr (None, updateAvailableReleases (author m) (name m) [] c1)
                | v # vs \<Rightarrow> Inr (Some v, updateAvailableReleases (author m) (name m) vs c1)))"

definition addAvailableVersion ::
  "Forge \<Rightarrow> ModuleDeclaration \<Rightarrow> string \<Rightarrow> ForgeCache \<Rightarrow> error + ForgeCache" where
  "addAvailableVersion fg m v c =
     (if \<not> truthy (forgeApiUrl m) then Inl no_forge_url
      else case getAvailableVersions fg m c of
             Inl e \<Rightarrow> Inl e
           | Inr (l, c1) \<Rightarrow> Inr (updateAvailableReleases (author m) (name m) (v # l) c1))"

section \<open>Resolver state and the version search\<close>

text \<open>
  The graph and the forge cache are process-wide singletons, the store belongs to the
  resolver and the modules are shared objects: one state record holds them all,
  together with the warnings the resolver has logged.
\<close>

record rstate =
  modules :: heap
  graph :: DependencyGraph
  store :: RequirementsStore
  cache :: ForgeCache
  warnings :: "string list"

definition setVersion :: "mref \<Rightarrow> string option \<Rightarrow> rstate \<Rightarrow> rstate" where
  "setVersion t v s = s\<lparr>modules := (modules s)[t := (modules s ! t)\<lparr>version := v\<rparr>]\<rparr>"

text \<open>The number of releases the next query for a module will see.\<close>

definition releasesLeft :: "Forge \<Rightarrow> ForgeCache \<Rightarrow> ModuleDeclaration \<Rightarrow> nat" where
  "releasesLeft fg c m =
     (let slug = author m @ ''-'' @ name m;
          len = (\<lambda>d. case md_releases d of None \<Rightarrow> 0 | Some rs \<Rightarrow> length rs)
      in case map_of (c_releases c) slug of
           Some l \<Rightarrow> length l
         | None \<Rightarrow>
             (case map_of (c_forgeModuleData c) slug of
                Some d \<Rightarrow> len d
              | None \<Rightarrow> (case map_of (forge_modules fg) slug of None \<Rightarrow> 0 | Some d \<Rightarrow> len d)))"

lemma getReleases_cached:
  assumes "getReleases fg a n c = Inr (l, c1)"
  shows "map_of (c_releases c1) (a @ ''-'' @ n) = Some l"
  using assms
  by (auto simp: getReleases_def getModuleData_def Let_def update_Some_unfold
           split: option.splits sum.splits prod.splits)

lemma getReleases_length:
  assumes "getReleases fg a n c = Inr (l, c1)"
  shows "length l = releasesLeft fg c \<lparr>name = n, author = a, forgeModule = fm, version = v,
            git = g, ref = rf, comments = cm, forgeApiUrl = u, gitDependencies = gd\<rparr>"
  using assms
  by (auto simp: getReleases_def getModuleData_def releasesLeft_def Let_def
           split: option.splits sum.splits prod.splits)

lemma releasesLeft_fields:
  "releasesLeft fg c m = releasesLeft fg c \<lparr>name = name m, author = author m, forgeModule = True,
      version = None, git = None, ref = None, comments = None, forgeApiUrl = None,
      gitDependencies = None\<rparr>"
  by (simp add: releasesLeft_def)

lemma hasAvailableVersion_sound:
  assumes "hasAvailableVersion fg m c = Inr (b, c1)"
  shows "\<exists>l. map_of (c_releases c1) (author m @ ''-'' @ name m) = Some l
             \<and> length l = releasesLeft fg c m \<and> b = (l \<noteq> [])"
proof -
  from assms obtain l where g: "getReleases fg (author m) (name m) c = Inr (l, c1)"
    and b: "b = (length l > 0)"
    by (auto simp: hasAvailableVersion_def getAvailableVersions_def
             split: if_splits sum.splits prod.splits)
  have "length l = releasesLeft fg c m"
    using getReleases_length [OF g] releasesLeft_fields [of fg c m] by simp
  with getReleases_cached [OF g] b show ?thesis by auto
qed

lemma getNextAvailableVersion_cached:
  assumes "getNextAvailableVersion fg m c = Inr (v, c2)"
    and "map_of (c_releases c) (author m @ ''-'' @ name m) = Some l"
  shows "map_of (c_releases c2) (author m @ ''-'' @ name m) = Some (tl l)
         \<and> v = (case l of [] \<Rightarrow> None | x # _ \<Rightarrow> Some x)"
  using assms
  by (auto simp: getNextAvailableVersion_def getAvailableVersions_def getReleases_def
                 updateAvailableReleases_def Let_def update_Some_unfold
           split: if_splits option.splits sum.splits prod.splits list.splits)

lemma releasesLeft_cached:
  "map_of (c_releases c) (author m @ ''-'' @ name m) = Some l \<Longrightarrow> releasesLeft fg c m = length l"
  by (simp add: releasesLeft_def)

lemma setVersion_slug:
  "author (modules (setVersion t v s) ! t) = author (modules s ! t)
   \<and> name (modules (setVersion t v s) ! t) = name (modules s ! t)
   \<and> forgeApiUrl (modules (setVersion t v s) ! t) = forgeApiUrl (modules s ! t)"
  by (cases "t < length (modules s)") (simp_all add: setVersion_def list_update_beyond)

function search_loop ::
  "(string \<Rightarrow> Range \<Rightarrow> bool) \<Rightarrow> Forge \<Rightarrow> mref \<Rightarrow> rstate \<Rightarrow> (error \<times> rstate) + (bool \<times> rstate)" where
  "search_loop sat fg t s =
     (case hasAvailableVersion fg (modules s ! t) (cache s) of
        Inl e \<Rightarrow> Inl (e, s)
      | Inr (avail, c1) \<Rightarrow>
          if \<not> avail then Inr (False, s\<lparr>cache := c1\<rparr>)
          else
            (case getNextAvailableVersion fg (modules s ! t) c1 of
               Inl e \<Rightarrow> Inl (e, s\<lparr>cache := c1\<rparr>)
             | Inr (v, c2) \<Rightarrow>
                 (case isValid sat (graph s) (modules (setVersion t v s) ! t) of
                    Inl e \<Rightarrow> Inl (e, setVersion t v (s\<lparr>cache := c2\<rparr>))
                  | Inr ok \<Rightarrow>
                      if ok \<and> truthy (version (modules (setVersion t v s) ! t))
                      then
                        (case addAvailableVersion fg (modules (setVersion t v s) ! t)
                                (the (version (modules (setVersion t v s) ! t))) c2 of
                           Inl e \<Rightarrow> Inl (e, setVersion t v (s\<lparr>cache := c2\<rparr>))
                         | Inr c3 \<Rightarrow> Inr (True, setVersion t v (s\<lparr>cache := c3\<rparr>)))
                      else search_loop sat fg t (setVersion t v (s\<lparr>cache := c2\<rparr>)))))"
  by pat_completeness auto
termination
proof (relation "measure (\<lambda>(sat, fg, t, s). releasesLeft fg (cache s) (modules s ! t))", goal_cases)
  case 1
  show ?case by simp
next
  case (2 sat fg t s x2 avail c1 x2a v c2 ok)
  from 2(1,2) have h: "hasAvailableVersion fg (modules s ! t) (cache s) = Inr (avail, c1)"
    by simp
  from hasAvailableVersion_sound [OF h] obtain l where
    l: "map_of (c_releases c1) (author (modules s ! t) @ ''-'' @ name (modules s ! t)) = Some l"
       "length l = releasesLeft fg (cache s) (modules s ! t)" "avail = (l \<noteq> [])"
    by blast
  from 2(4,5) have n: "getNextAvailableVersion fg (modules s ! t) c1 = Inr (v, c2)"
    by simp
  from getNextAvailableVersion_cached [OF n l(1)] have
    c2: "map_of (c_releases c2) (author (modules s ! t) @ ''-'' @ name (modules s ! t)) = Some (tl l)"
    by simp
  let ?s2 = "setVersion t v (s\<lparr>cache := c2\<rparr>)"
  have same: "author (modules ?s2 ! t) = author (modules s ! t)"
             "name (modules ?s2 ! t) = name (modules s ! t)"
    using setVersion_slug [of t v "s\<lparr>cache := c2\<rparr>"] by simp_all
  have "cache ?s2 = c2" by (simp add: setVersion_def)
  with c2 same have "releasesLeft fg (cache ?s2) (modules ?s2 ! t) = length (tl l)"
    by (simp add: releasesLeft_cached)
  moreover from 2(3) l(3) have "l \<noteq> []" by simp
  ultimately show ?case using l(2) by (cases l) simp_all
qed

text \<open>
  The constructor of \<open>NoVersionFoundError\<close> composes the message from the slugs of the
  source and of the target module and from the \<open>range\<close> property of the dependency
  range.
\<close>

definition new_NoVersionFoundError :: "heap \<Rightarrow> Requirement \<Rightarrow> error" where
  "new_NoVersionFoundError hp r =
     NoVersionFoundError
       (''No possible version for requirement ''
        @ (case sourceModule r of None \<Rightarrow> ''undefined'' | Some sm \<Rightarrow> slugOf hp sm)
        @ '' => '' @ (case targetModule r of None \<Rightarrow> ''undefined'' | Some t \<Rightarrow> slugOf hp t)
        @ '' ('' @ (case dependencyRange r of None \<Rightarrow> ''undefined'' | Some rg \<Rightarrow> range_text rg)
        @ '')'')"

text \<open>
  \<open>Requirement.getNewVersion\<close>. A thrown error comes with the state at the throw: the
  resolver may swallow \<open>NoVersionFoundError\<close> and go on from there.
\<close>

definition getNewVersion ::
  "(string \<Rightarrow> Range \<Rightarrow> bool) \<Rightarrow> Forge \<Rightarrow> Requirement \<Rightarrow> rstate
     \<Rightarrow> (error \<times> rstate) + (string \<times> rstate)" where
  "getNewVersion sat fg r s =
     (case targetModule r of
        None \<Rightarrow> Inr ([], s)
      | Some t \<Rightarrow>
          (case isValid sat (graph s) (modules s ! t) of
             Inl e \<Rightarrow> Inl (e, s)
           | Inr True \<Rightarrow> Inr (or_empty (version (modules s ! t)), s)
           | Inr False \<Rightarrow>
               (case search_loop sat fg t s of
                  Inl es \<Rightarrow> Inl es
                | Inr (False, s') \<Rightarrow> Inl (new_NoVersionFoundError (modules s') r, s')
                | Inr (True, s') \<Rightarrow> Inr (or_empty (version (modules s' ! t)), s'))))"

section \<open>Library instances for the examples\<close>

text \<open>
  The theorems below hold for every instance of the libraries. The examples need one.
  It knows plain \<open>x.y.z\<close> versions without leading zeros, and ranges that are
  intersections of the primitive comparators \<open><\<close>, \<open><=\<close>, \<open>>\<close>, \<open>>=\<close>, \<open>=\<close> applied to
  such versions (the empty range admits every version); the normalised text of a range
  has no blank after an operator and no \<open>=\<close>. It takes every other text for one the
  constructor refuses, which is what the semver library does with a comparator without
  a version and with a version like \<open>latest\<close>, but not with every text. A date it knows
  in the form \<open>toISOString\<close> prints, and nowhere else.
\<close>

definition split_on :: "char \<Rightarrow> string \<Rightarrow> string list" where
  "split_on c w = split_when (\<lambda>x. x = c) w"

definition parse_num :: "string \<Rightarrow> nat option" where
  "parse_num w =
     (if w \<noteq> [] \<and> list_all (\<lambda>c. 48 \<le> (of_char c :: nat) \<and> (of_char c :: nat) \<le> 57) w
         \<and> (length w = 1 \<or> hd w \<noteq> CHR ''0'')
      then Some (foldl (\<lambda>a c. 10 * a + (of_char c - 48)) 0 w)
      else None)"

definition parse_version :: "string \<Rightarrow> (nat \<times> nat \<times> nat) option" where
  "parse_version w =
     (case map parse_num (split_on (CHR ''.'') w) of
        [Some a, Some b, Some c] \<Rightarrow> Some (a, b, c)
      | _ \<Rightarrow> None)"

fun ver_less :: "nat \<times> nat \<times> nat \<Rightarrow> nat \<times> nat \<times> nat \<Rightarrow> bool" where
  "ver_less (a, b, c) (x, y, z) = (a < x \<or> (a = x \<and> (b < y \<or> (b = y \<and> c < z))))"

fun strip_op_space :: "string \<Rightarrow> string" where
  "strip_op_space (a # b # xs) =
     (if a \<in> {CHR ''<'', CHR ''>'', CHR ''=''} \<and> b = CHR '' ''
      then strip_op_space (a # xs)
      else a # strip_op_space (b # xs))"
| "strip_op_space xs = xs"

text \<open>The comparators of a range text.\<close>

definition comparators :: "string \<Rightarrow> string list" where
  "comparators w = filter (\<lambda>u. u \<noteq> []) (split_on (CHR '' '') (strip_op_space w))"

definition comparator_ok :: "nat \<times> nat \<times> nat \<Rightarrow> string \<Rightarrow> bool" where
  "comparator_ok v w =
     (let on = (\<lambda>p u. case parse_version u of None \<Rightarrow> False | Some x \<Rightarrow> p x)
      in case w of
           CHR ''>'' # CHR ''='' # u \<Rightarrow> on (\<lambda>x. \<not> ver_less v x) u
         | CHR ''<'' # CHR ''='' # u \<Rightarrow> on (\<lambda>x. \<not> ver_less x v) u
         | CHR ''>'' # u \<Rightarrow> on (\<lambda>x. ver_less x v) u
         | CHR ''<'' # u \<Rightarrow> on (\<lambda>x. ver_less v x) u
         | CHR ''='' # u \<Rightarrow> on (\<lambda>x. x = v) u
         | u \<Rightarrow> on (\<lambda>x. x = v) u)"

fun semver_satisfies :: "string \<Rightarrow> Range \<Rightarrow> bool" where
  "semver_satisfies v (Range r n) =
     (case parse_version v of
        None \<Rightarrow> False
      | Some pv \<Rightarrow> list_all (comparator_ok pv) (comparators r))"

text \<open>A comparator as the library prints it, if it is one.\<close>

definition comparator_text :: "string \<Rightarrow> string option" where
  "comparator_text w =
     (let on = (\<lambda>op u. case parse_version u of None \<Rightarrow> None | Some x \<Rightarrow> Some (op @ u))
      in case w of
           CHR ''>'' # CHR ''='' # u \<Rightarrow> on ''>='' u
         | CHR ''<'' # CHR ''='' # u \<Rightarrow> on ''<='' u
         | CHR ''>'' # u \<Rightarrow> on ''>'' u
         | CHR ''<'' # u \<Rightarrow> on ''<'' u
         | CHR ''='' # u \<Rightarrow> on [] u
         | u \<Rightarrow> on [] u)"

fun join_blank :: "string list \<Rightarrow> string" where
  "join_blank [] = []"
| "join_blank [w] = w"
| "join_blank (w # u # ws) = w @ '' '' @ join_blank (u # ws)"

definition semver_rangeText :: "string \<Rightarrow> string option" where
  "semver_rangeText w =
     (let cs = map comparator_text (comparators w)
      in if list_all (\<lambda>c. c \<noteq> None) cs then Some (join_blank (map the cs)) else None)"

definition isDigit :: "char \<Rightarrow> bool" where
  "isDigit c = (48 \<le> (of_char c :: nat) \<and> (of_char c :: nat) \<le> 57)"

text \<open>The form \<open>YYYY-MM-DDTHH:mm:ss.sssZ\<close>.\<close>

definition iso_toISOString :: "string \<Rightarrow> string option" where
  "iso_toISOString w =
     (if length w = 24
         \<and> list_all (\<lambda>(c, p). if p = CHR ''9'' then isDigit c else c = p)
              (zip w ''9999-99-99T99:99:99.999Z'')
      then Some w else None)"

definition semver :: Libraries where
  "semver = \<lparr>rangeText = semver_rangeText, satisfies = semver_satisfies,
             toISOString = iso_toISOString\<rparr>"

text \<open>The range the library constructs from a text it accepts.\<close>

definition ex_range :: "string \<Rightarrow> Range" where
  "ex_range w = Range w (or_empty (semver_rangeText w))"
section \<open>Module declaration: deprecation and dependencies\<close>

definition DEFAULT_FORGE :: string where
  "DEFAULT_FORGE = ''https://forgeapi.puppetlabs.com''"

definition getDeprecationStatus ::
  "Forge \<Rightarrow> ModuleDeclaration \<Rightarrow> ForgeCache
     \<Rightarrow> error + (DeprecationStatus option \<times> ForgeCache)" where
  "getDeprecationStatus fg m c =
     (if \<not> forgeModule m then Inr (None, c)
      else if \<not> truthy (forgeApiUrl m) then Inl no_forge_url
      else cache_getDeprecationStatus fg (author m) (name m) c)"

text \<open>
  \<open>ModuleDeclaration.fromText\<close> on the text \<open>mod '<a>-<n>'\<close> that
  \<open>_buildDependencies\<close> composes from the two pieces of a dependency's name. The
  pieces hold neither \<open>-\<close> nor \<open>/\<close>, so the pattern takes \<open>a\<close> as the author and
  \<open>n\<close> up to its first quote as the name, and fails when either is empty. No
  version is given, so the version is the head of the release list.
\<close>

definition fromText_dependency ::
  "Forge \<Rightarrow> string option \<Rightarrow> string \<Rightarrow> string \<Rightarrow> ForgeCache
     \<Rightarrow> error + (ModuleDeclaration \<times> ForgeCache)" where
  "fromText_dependency fg url a n c =
     (let nm = takeWhile (\<lambda>x. x \<noteq> CHR 0x27) n
      in if a = [] \<or> nm = []
         then Inl (Thrown (''Invalid module declaration: mod '' @ [CHR 0x27] @ a @ ''-'' @ n @ [CHR 0x27]))
         else
           (let m = \<lparr>name = nm, author = a, forgeModule = True, version = None, git = None,
                     ref = None, comments = None, forgeApiUrl = url, gitDependencies = None\<rparr>
            in case getAvailableVersions fg m c of
                 Inl e \<Rightarrow> Inl e
               | Inr (l, c1) \<Rightarrow>
                   Inr (m\<lparr>version := (case l of [] \<Rightarrow> None | v # _ \<Rightarrow> Some v)\<rparr>, c1)))"

text \<open>
  \<open>_buildDependencies\<close>. For each dependency the range is constructed from its
  \<open>version_requirement\<close> (the empty text when there is none) before the declaration of
  the target is read; \<open>withTargetModule\<close> comes last, when the range is set.
\<close>

fun buildDependencies ::
  "Libraries \<Rightarrow> Forge \<Rightarrow> mref \<Rightarrow> ForgeDependency list \<Rightarrow> rstate
     \<Rightarrow> error + (Requirement list \<times> rstate)" where
  "buildDependencies lib fg this [] s = Inr ([], s)"
| "buildDependencies lib fg this (d # ds) s =
     (let pieces = split_when (\<lambda>x. x = CHR ''/'' \<or> x = CHR ''-'') (dep_name d);
          a = (case pieces of [] \<Rightarrow> ''undefined'' | p # _ \<Rightarrow> p);
          n = (case pieces of _ # p # _ \<Rightarrow> p | _ \<Rightarrow> ''undefined'');
          url = (case forgeApiUrl (modules s ! this) of
                   None \<Rightarrow> Some DEFAULT_FORGE
                 | Some u \<Rightarrow> Some u)
      in case new_Range lib (or_empty (version_requirement d)) of
           Inl e \<Rightarrow> Inl e
         | Inr rg \<Rightarrow>
             (case fromText_dependency fg url a n (cache s) of
                Inl e \<Rightarrow> Inl e
              | Inr (m, c1) \<Rightarrow>
                  (let t = length (modules s);
                       s1 = s\<lparr>modules := modules s @ [m], cache := c1\<rparr>
                   in case withTargetModule lib (modules s1) t
                             (withSourceModule (Some this)
                                (withDependencyRange rg (withSource Dependency new_Requirement))) of
                        Inl e \<Rightarrow> Inl e
                      | Inr r \<Rightarrow>
                          (case buildDependencies lib fg this ds s1 of
                             Inl e \<Rightarrow> Inl e
                           | Inr (rs, s2) \<Rightarrow> Inr (r # rs, s2)))))"

definition getVersion ::
  "Forge \<Rightarrow> ModuleDeclaration \<Rightarrow> ForgeCache \<Rightarrow> error + (string \<times> ForgeCache)" where
  "getVersion fg m c =
     (if truthy (version m) then Inr (the (version m), c)
      else if \<not> truthy (forgeApiUrl m)
        then Inl (Thrown ''Can not get version. No Forge API URL is set.'')
      else case getReleases fg (author m) (name m) c of
             Inl e \<Rightarrow> Inl e
           | Inr (l, c1) \<Rightarrow> Inr ((case l of [] \<Rightarrow> ''undefined'' | v # _ \<Rightarrow> v), c1))"

definition getDependencies ::
  "Libraries \<Rightarrow> Forge \<Rightarrow> mref \<Rightarrow> rstate \<Rightarrow> error + (Requirement list \<times> rstate)" where
  "getDependencies lib fg this s =
     (let m = modules s ! this
      in if forgeModule m
         then
           (case getVersion fg m (cache s) of
              Inl e \<Rightarrow> Inl e
            | Inr (v, c1) \<Rightarrow>
                if \<not> truthy (forgeApiUrl m)
                then Inl (Thrown ''Can not fetch dependencies. No forge API URL set'')
                else
                  (case cache_getDependencies fg (author m) (name m) v c1 of
                     Inl e \<Rightarrow> Inl e
                   | Inr (raw, c2) \<Rightarrow> buildDependencies lib fg this raw (s\<lparr>cache := c2\<rparr>)))
         else
           (case gitDependencies m of
              None \<Rightarrow> Inr ([], s)
            | Some raw \<Rightarrow> buildDependencies lib fg this raw s))"

section \<open>Dependency resolver\<close>

record DependencyResolver =
  sourcePuppetfile :: PuppetFile
  ignoreList :: "string list"
  hideList :: "string list"

text \<open>
  \<open>_checkDeprecationStatus\<close>. The error is constructed, and with it the status printed,
  before the ignore list is looked at. (The status is asked for twice; the second answer
  comes from the cache and is the first.)
\<close>

definition checkDeprecationStatus ::
  "DependencyResolver \<Rightarrow> Libraries \<Rightarrow> Forge \<Rightarrow> mref \<Rightarrow> rstate \<Rightarrow> error + rstate" where
  "checkDeprecationStatus cfg lib fg m s =
     (case getDeprecationStatus fg (modules s ! m) (cache s) of
        Inl e \<Rightarrow> Inl e
      | Inr (None, c1) \<Rightarrow> Inr (s\<lparr>cache := c1\<rparr>)
      | Inr (Some status, c1) \<Rightarrow>
          (case status_toString lib status of
             Inl e \<Rightarrow> Inl e
           | Inr printed \<Rightarrow>
               (let msg = ''Module '' @ slugOf (modules s) m @ '' is deprecated: '' @ printed
                in if slugOf (modules s) m \<in> set (ignoreList cfg)
                   then Inr (s\<lparr>cache := c1,
                               warnings := warnings s
                                 @ [msg @ '', but module is ignored. Continuing'']\<rparr>)
                   else Inl (DeprecatedModuleError msg))))"

text \<open>The slug of an optional module inside a template string or as a graph key.\<close>

definition slugOrUndefined :: "heap \<Rightarrow> mref option \<Rightarrow> string" where
  "slugOrUndefined hp m = (case m of None \<Rightarrow> ''undefined'' | Some r \<Rightarrow> slugOf hp r)"

definition getEdgeId :: "heap \<Rightarrow> Requirement \<Rightarrow> string" where
  "getEdgeId hp r =
     (if source r = Some Puppetfile then ''puppetfile'' else slugOrUndefined hp (sourceModule r))
     @ ''.'' @ slugOrUndefined hp (targetModule r)"

definition addToGraph :: "Requirement \<Rightarrow> rstate \<Rightarrow> error + rstate" where
  "addToGraph r s =
     (let hp = modules s;
          g = graph s;
          srcSlug = slugOrUndefined hp (sourceModule r);
          tgtSlug = slugOrUndefined hp (targetModule r);
          g1 = (if source r = Some Dependency \<and> \<not> hasNode g srcSlug
                  then addNode g srcSlug (sourceModule r)
                else if source r = Some Puppetfile \<and> \<not> hasNode g ''puppetfile''
                  then addNode g ''puppetfile'' None
                else Inr g)
      in case g1 of
           Inl e \<Rightarrow> Inl e
         | Inr g1 \<Rightarrow>
             (case (if \<not> hasNode g1 tgtSlug then addNode g1 tgtSlug (targetModule r) else Inr g1) of
                Inl e \<Rightarrow> Inl e
              | Inr g2 \<Rightarrow>
                  (let sourceKey = (case sourceModule r of
                                      None \<Rightarrow> ''puppetfile''
                                    | Some sm \<Rightarrow> slugOf hp sm)
                   in if \<not> hasEdge g2 (sourceKey @ ''.'' @ tgtSlug)
                      then (case addDirectedEdgeWithKey g2 (getEdgeId hp r) sourceKey tgtSlug r of
                              Inl e \<Rightarrow> Inl e
                            | Inr g3 \<Rightarrow> Inr (s\<lparr>graph := g3\<rparr>))
                      else Inr (s\<lparr>graph := g2\<rparr>))))"

text \<open>
  The unchanged-version branch of \<open>_checkVersion\<close>: each dependency of the target is
  queued, unless its target is a node of the graph that the graph validates.
\<close>

fun enqueueDependencies ::
  "Libraries \<Rightarrow> mref \<Rightarrow> Requirement list \<Rightarrow> rstate \<Rightarrow> error + rstate" where
  "enqueueDependencies lib t [] s = Inr s"
| "enqueueDependencies lib t (d # ds) s =
     (case req_isValid d of
        Inl e \<Rightarrow> Inl e
      | Inr ok \<Rightarrow>
          (case (targetModule d, dependencyRange d) of
             (Some dt, Some rg) \<Rightarrow>
               if ok then
                 (if hasNode (graph s) (slugOf (modules s) dt)
                     \<and> isValid (satisfies lib) (graph s) (modules s ! dt) = Inr True
                  then enqueueDependencies lib t ds s
                  else
                    (case withTargetModule lib (modules s) dt
                            (withSourceModule (Some t) (withSource Dependency new_Requirement)) of
                       Inl e \<Rightarrow> Inl e
                     | Inr r \<Rightarrow>
                         enqueueDependencies lib t ds
                           (s\<lparr>store := addRequirement (withDependencyRange rg r) (store s)\<rparr>)))
               else enqueueDependencies lib t ds s
           | _ \<Rightarrow> enqueueDependencies lib t ds s))"

text \<open>
  \<open>forEachOutEdge\<close> with \<open>dropNode\<close> in its callback: the out-edges are visited in
  order, and one removed by an earlier drop is not visited any more.
\<close>

fun dropSoleDependencies :: "GEdge list \<Rightarrow> DependencyGraph \<Rightarrow> error + DependencyGraph" where
  "dropSoleDependencies [] g = Inr g"
| "dropSoleDependencies (e # es) g =
     (if \<not> hasEdge g (edge_key e) then dropSoleDependencies es g
      else case someInEdge g (edge_target e) (\<lambda>e'. edge_source e \<noteq> edge_source e') of
             Inl x \<Rightarrow> Inl x
           | Inr True \<Rightarrow> dropSoleDependencies es g
           | Inr False \<Rightarrow>
               (case dropNode g (edge_target e) of
                  Inl x \<Rightarrow> Inl x
                | Inr g' \<Rightarrow> dropSoleDependencies es g'))"

text \<open>
  The requirement that the changed-version branch of \<open>_checkVersion\<close> queues for an
  incoming edge: the source module and the range are those of the edge, whatever they
  are; the target is set in between, on a requirement that has no range yet.
\<close>

definition requeueInEdge :: "Libraries \<Rightarrow> heap \<Rightarrow> mref \<Rightarrow> GEdge \<Rightarrow> error + Requirement" where
  "requeueInEdge lib hp t e =
     (case withTargetModule lib hp t
             (withSourceModule (sourceModule (edge_attrs e))
                (withSource Dependency new_Requirement)) of
        Inl x \<Rightarrow> Inl x
      | Inr r \<Rightarrow> Inr (r\<lparr>dependencyRange := dependencyRange (edge_attrs e)\<rparr>))"

fun requeueInEdges ::
  "Libraries \<Rightarrow> heap \<Rightarrow> mref \<Rightarrow> GEdge list \<Rightarrow> RequirementsStore \<Rightarrow> error + RequirementsStore" where
  "requeueInEdges lib hp t [] st = Inr st"
| "requeueInEdges lib hp t (e # es) st =
     (case requeueInEdge lib hp t e of
        Inl x \<Rightarrow> Inl x
      | Inr r \<Rightarrow> requeueInEdges lib hp t es (addRequirement r st))"

definition checkVersion ::
  "Libraries \<Rightarrow> Forge \<Rightarrow> mref \<Rightarrow> string \<Rightarrow> string \<Rightarrow> rstate \<Rightarrow> error + rstate" where
  "checkVersion lib fg t oldVersion newVersion s =
     (if newVersion = oldVersion
      then
        (case getDependencies lib fg t s of
           Inl e \<Rightarrow> Inl e
         | Inr (deps, s1) \<Rightarrow> enqueueDependencies lib t deps s1)
      else
        (let s1 = setVersion t (Some newVersion) s;
             slug = slugOf (modules s1) t;
             s2 = s1\<lparr>modules := updateTargetVersion slug newVersion (store s1) (modules s1)\<rparr>
         in if \<not> hasNode (graph s2) slug then Inl (GraphError ''forEachOutEdge: node not found'')
            else
              (case dropSoleDependencies (outEdgesOf (graph s2) slug) (graph s2) of
                 Inl e \<Rightarrow> Inl e
               | Inr g1 \<Rightarrow>
                   (let st1 = deleteSourceRequirements (modules s2) slug (store s2)
                    in if \<not> hasNode g1 slug then Inl (GraphError ''inEdges: node not found'')
                       else
                         (case requeueInEdges lib (modules s2) t (inEdgesOf g1 slug) st1 of
                            Inl e \<Rightarrow> Inl e
                          | Inr st2 \<Rightarrow>
                              (case dropNode g1 slug of
                                 Inl e \<Rightarrow> Inl e
                               | Inr g2 \<Rightarrow> Inr (s2\<lparr>graph := g2, store := st2\<rparr>)))))))"

text \<open>
  The loop body of \<open>resolve\<close> for a dequeued requirement with target \<open>t\<close>, in two
  parts: the deprecation checks and the insertion into the graph, then the version
  search and \<open>_checkVersion\<close>.
\<close>

definition prepareRequirement ::
  "DependencyResolver \<Rightarrow> Libraries \<Rightarrow> Forge \<Rightarrow> Requirement \<Rightarrow> mref \<Rightarrow> rstate
     \<Rightarrow> error + rstate" where
  "prepareRequirement cfg lib fg r t s =
     (case (case sourceModule r of
              None \<Rightarrow> Inr s
            | Some sm \<Rightarrow> checkDeprecationStatus cfg lib fg sm s) of
        Inl e \<Rightarrow> Inl e
      | Inr s1 \<Rightarrow>
          (case checkDeprecationStatus cfg lib fg t s1 of
             Inl e \<Rightarrow> Inl e
           | Inr s2 \<Rightarrow> addToGraph r s2))"

definition selectVersion ::
  "Libraries \<Rightarrow> Forge \<Rightarrow> DependencyResolver \<Rightarrow> Requirement \<Rightarrow> mref \<Rightarrow> rstate
     \<Rightarrow> error + rstate" where
  "selectVersion lib fg cfg r t s =
     (let oldVersion = version (modules s ! t)
      in case getNewVersion (satisfies lib) fg r s of
           Inl (e, s1) \<Rightarrow>
             (case e of
                NoVersionFoundError msg \<Rightarrow>
                  if slugOf (modules s1) t \<in> set (ignoreList cfg)
                  then Inr (s1\<lparr>warnings := warnings s1 @
                                [msg @ '', but module is ignored. Continuing'']\<rparr>)
                  else Inl e
              | _ \<Rightarrow> Inl e)
         | Inr (newVersion, s1) \<Rightarrow> checkVersion lib fg t (or_empty oldVersion) newVersion s1)"

definition processRequirement ::
  "Libraries \<Rightarrow> Forge \<Rightarrow> DependencyResolver \<Rightarrow> Requirement \<Rightarrow> rstate
     \<Rightarrow> error + rstate" where
  "processRequirement lib fg cfg r s =
     (case req_isValid r of
        Inl e \<Rightarrow> Inl e
      | Inr ok \<Rightarrow>
          (case targetModule r of
             None \<Rightarrow> Inr s
           | Some t \<Rightarrow>
               if \<not> ok then Inr s
               else
                 (case prepareRequirement cfg lib fg r t s of
                    Inl e \<Rightarrow> Inl e
                  | Inr s1 \<Rightarrow> selectVersion lib fg cfg r t s1)))"

text \<open>
  The \<open>while\<close> loop of \<open>resolve\<close>. Requirements are put back into the queue when a
  version changes, so the loop is bounded by fuel; running out of it is \<open>None\<close>. An
  error comes with the state in which the failing requirement was dequeued.
\<close>

fun resolveLoop ::
  "nat \<Rightarrow> Libraries \<Rightarrow> Forge \<Rightarrow> DependencyResolver \<Rightarrow> rstate
     \<Rightarrow> (error \<times> rstate + rstate) option" where
  "resolveLoop fuel lib fg cfg s =
     (if \<not> hasNextRequirement (store s) then Some (Inr s)
      else case fuel of
             0 \<Rightarrow> None
           | Suc k \<Rightarrow>
               (case getNextRequirement (store s) of
                  (None, rest) \<Rightarrow> resolveLoop k lib fg cfg (s\<lparr>store := rest\<rparr>)
                | (Some r, rest) \<Rightarrow>
                    (case processRequirement lib fg cfg r (s\<lparr>store := rest\<rparr>) of
                       Inl e \<Rightarrow> Some (Inl (e, s\<lparr>store := rest\<rparr>))
                     | Inr s1 \<Rightarrow> resolveLoop k lib fg cfg s1)))"

text \<open>
  The walk over the nodes of the final graph. The test \<open>module in modules\<close> of the
  source asks whether the array has a property named like the object, which it never
  has, so every node that reaches it is pushed.
\<close>

definition hasModule :: "heap \<Rightarrow> PuppetFile \<Rightarrow> string \<Rightarrow> string option \<Rightarrow> bool" where
  "hasModule hp pf a n =
     list_ex (\<lambda>m. author (hp ! m) = a \<and> Some (name (hp ! m)) = n) (pf_modules pf)"

fun dumpNodes ::
  "DependencyResolver \<Rightarrow> rstate \<Rightarrow> GNode list \<Rightarrow> PuppetFile \<Rightarrow> PuppetFile" where
  "dumpNodes cfg s [] out = out"
| "dumpNodes cfg s (nd # nds) out =
     (let nodeId = node_key nd
      in if nodeId \<in> set (hideList cfg) then dumpNodes cfg s nds out
         else
           (let pieces = split_when (\<lambda>x. x = CHR ''-'') nodeId;
                a = (case pieces of [] \<Rightarrow> [] | p # _ \<Rightarrow> p);
                n = (case pieces of _ # p # _ \<Rightarrow> Some p | _ \<Rightarrow> None)
            in if hasModule (modules s) (sourcePuppetfile cfg) a n
                  \<or> list_ex (\<lambda>e. source (edge_attrs e) = Some Puppetfile) (inEdgesOf (graph s) nodeId)
               then dumpNodes cfg s nds
                      (out\<lparr>pf_modules := pf_modules out @ (case node_module nd of None \<Rightarrow> [] | Some m \<Rightarrow> [m])\<rparr>)
               else if nodeId \<noteq> ''puppetfile''
               then dumpNodes cfg s nds
                      (out\<lparr>pf_dependentModules :=
                             pf_dependentModules out @ (case node_module nd of None \<Rightarrow> [] | Some m \<Rightarrow> [m])\<rparr>)
               else dumpNodes cfg s nds out))"

definition resolve ::
  "nat \<Rightarrow> Libraries \<Rightarrow> Forge \<Rightarrow> DependencyResolver \<Rightarrow> rstate
     \<Rightarrow> (error \<times> rstate + PuppetFile \<times> rstate) option" where
  "resolve fuel lib fg cfg s =
     (case resolveLoop fuel lib fg cfg s of
        None \<Rightarrow> None
      | Some (Inl es) \<Rightarrow> Some (Inl es)
      | Some (Inr s1) \<Rightarrow>
          Some (Inr (dumpNodes cfg s1 (nodes (graph s1))
                       \<lparr>pf_modules = [], pf_dependentModules = [],
                        pf_forge = pf_forge (sourcePuppetfile cfg),
                        pf_preamble = pf_preamble (sourcePuppetfile cfg)\<rparr>, s1)))"

text \<open>
  A resolver configured by \<open>withPuppetFile\<close> in a fresh process: the store holds the
  Puppetfile's requirements, the graph and the forge cache are empty. There is no
  resolver when the store cannot be built.
\<close>

definition resolverState ::
  "Libraries \<Rightarrow> heap \<Rightarrow> PuppetFile \<Rightarrow> ForgeCache \<Rightarrow> error + rstate" where
  "resolverState lib hp pf c =
     (case store_withPuppetFile lib hp pf [] of
        Inl e \<Rightarrow> Inl e
      | Inr st \<Rightarrow>
          Inr \<lparr>modules = hp, graph = empty_graph, store = st, cache = c, warnings = []\<rparr>)"

section \<open>Puppetfile text: emission\<close>

text \<open>
  The text functions work on the module declarations themselves: a Puppetfile as
  \<open>toText\<close> and \<open>fromText\<close> see it, with its dependency identifier.
\<close>

record PuppetFileText =
  t_modules :: "ModuleDeclaration list"
  t_dependentModules :: "ModuleDeclaration list"
  t_forge :: string
  t_preamble :: string
  t_dependencyIdentifier :: string

definition new_PuppetFile :: PuppetFileText where
  "new_PuppetFile =
     \<lparr>t_modules = [], t_dependentModules = [], t_forge = DEFAULT_FORGE, t_preamble = [],
      t_dependencyIdentifier = ''## dependencies''\<rparr>"

text \<open>
  Handlebars escapes, for HTML, the value of an expression written between two pairs
  of braces; every expression of the template is written so.
\<close>

definition escapeChar :: "char \<Rightarrow> string" where
  "escapeChar c =
     (if c = CHR ''&'' then ''&amp;''
      else if c = CHR ''<'' then ''&lt;''
      else if c = CHR ''>'' then ''&gt;''
      else if c = CHR 0x22 then ''&quot;''
      else if c = CHR 0x27 then ''&#x27;''
      else if c = CHR 0x60 then ''&#x60;''
      else if c = CHR ''='' then ''&#x3D;''
      else [c])"

definition escapeExpression :: "string \<Rightarrow> string" where
  "escapeExpression w = concat (map escapeChar w)"

text \<open>An \<open>each\<close> block, with \<open>last\<close> at hand in its body.\<close>

fun eachLast :: "('a \<Rightarrow> bool \<Rightarrow> string) \<Rightarrow> 'a list \<Rightarrow> string" where
  "eachLast f [] = []"
| "eachLast f [x] = f x True"
| "eachLast f (x # y # ys) = f x False @ eachLast f (y # ys)"

definition commentBlock :: "ModuleDeclaration \<Rightarrow> string" where
  "commentBlock m =
     concat (map (\<lambda>c. ''# '' @ c @ [CHR 0x0A]) (case comments m of None \<Rightarrow> [] | Some cs \<Rightarrow> cs))"

definition modHead :: "ModuleDeclaration \<Rightarrow> string" where
  "modHead m =
     ''mod '' @ [CHR 0x27] @ escapeExpression (author m) @ ''-'' @ escapeExpression (name m)
       @ [CHR 0x27]"

definition gitEntry :: "ModuleDeclaration \<Rightarrow> bool \<Rightarrow> string" where
  "gitEntry m isLast =
     commentBlock m @ modHead m @ '','' @ [CHR 0x0A]
       @ ''    :git => '' @ [CHR 0x27] @ escapeExpression (or_empty (git m)) @ [CHR 0x27]
       @ (if truthy (ref m)
          then '','' @ [CHR 0x0A] @ ''    :ref => '' @ [CHR 0x27]
                 @ escapeExpression (or_empty (ref m)) @ [CHR 0x27]
          else [])
       @ [CHR 0x0A]
       @ (if isLast then [] else ''    '' @ [CHR 0x0A])"

definition versionedHead :: "ModuleDeclaration \<Rightarrow> string" where
  "versionedHead m =
     modHead m @ '', '' @ [CHR 0x27] @ escapeExpression (or_empty (version m)) @ [CHR 0x27]"

definition forgeEntry :: "ModuleDeclaration \<Rightarrow> bool \<Rightarrow> string" where
  "forgeEntry m isLast =
     commentBlock m @ versionedHead m @ [CHR 0x0A] @ (if isLast then [] else [CHR 0x0A])"

definition dependentEntry :: "ModuleDeclaration \<Rightarrow> bool \<Rightarrow> string" where
  "dependentEntry m isLast =
     commentBlock m @ versionedHead m @ (if isLast then [] else [CHR 0x0A, CHR 0x0A])"

text \<open>
  \<open>Array.sort\<close> with \<open>sortByModuleName\<close>: a stable sort by name, strings compared
  character by character. A module is put in front of the first module, among those
  that followed it, whose name is not smaller.
\<close>

fun nameLess :: "string \<Rightarrow> string \<Rightarrow> bool" where
  "nameLess [] [] = False"
| "nameLess [] (y # ys) = True"
| "nameLess (x # xs) [] = False"
| "nameLess (x # xs) (y # ys) =
     ((of_char x :: nat) < of_char y \<or> (x = y \<and> nameLess xs ys))"

fun insertByName :: "ModuleDeclaration \<Rightarrow> ModuleDeclaration list \<Rightarrow> ModuleDeclaration list" where
  "insertByName m [] = [m]"
| "insertByName m (x # xs) =
     (if nameLess (name x) (name m) then x # insertByName m xs else m # x # xs)"

definition sortByModuleName :: "ModuleDeclaration list \<Rightarrow> ModuleDeclaration list" where
  "sortByModuleName ms = foldr insertByName ms []"

definition toText :: "PuppetFileText \<Rightarrow> string" where
  "toText pf =
     ''forge '' @ [CHR 0x27] @ escapeExpression (t_forge pf) @ [CHR 0x27, CHR 0x0A, CHR 0x0A]
       @ (if t_preamble pf \<noteq> [] then escapeExpression (t_preamble pf) @ [CHR 0x0A, CHR 0x0A] else [])
       @ ''# Git modules'' @ [CHR 0x0A, CHR 0x0A]
       @ eachLast gitEntry (sortByModuleName (filter (\<lambda>m. \<not> forgeModule m) (t_modules pf)))
       @ [CHR 0x0A] @ ''# Forge modules'' @ [CHR 0x0A, CHR 0x0A]
       @ eachLast forgeEntry (sortByModuleName (filter forgeModule (t_modules pf)))
       @ [CHR 0x0A] @ escapeExpression (t_dependencyIdentifier pf) @ [CHR 0x0A, CHR 0x0A]
       @ eachLast dependentEntry (sortByModuleName (t_dependentModules pf))"

section \<open>Puppetfile text: parsing\<close>

text \<open>
  Whitespace as \<open>\s\<close> matches it, for the characters below 128. The line
  terminators inside a line (a lone carriage return) are not modelled beyond that.
\<close>

definition isSpace :: "char \<Rightarrow> bool" where
  "isSpace c = (c \<in> {CHR '' '', CHR 0x09, CHR 0x0A, CHR 0x0B, CHR 0x0C, CHR 0x0D})"

definition quote :: char where
  "quote = CHR 0x27"

text \<open>\<open>text.split(/\r?\n/)\<close>.\<close>

definition stripCR :: "string \<Rightarrow> string" where
  "stripCR w = (if w \<noteq> [] \<and> last w = CHR 0x0D then butlast w else w)"

definition splitLines :: "string \<Rightarrow> string list" where
  "splitLines w =
     (let ps = split_when (\<lambda>c. c = CHR 0x0A) w in map stripCR (butlast ps) @ [last ps])"

definition startsWith :: "string \<Rightarrow> string \<Rightarrow> bool" where
  "startsWith p w = (take (length p) w = p)"

fun includesText :: "string \<Rightarrow> string \<Rightarrow> bool" where
  "includesText sub [] = (sub = [])"
| "includesText sub (c # cs) = (startsWith sub (c # cs) \<or> includesText sub cs)"

text \<open>The comment pattern \<open>/^\s*#\s*(?<comment>.*)$/\<close>.\<close>

definition matchComment :: "string \<Rightarrow> string option" where
  "matchComment w =
     (case dropWhile isSpace w of
        [] \<Rightarrow> None
      | c # rest \<Rightarrow>
          if c = CHR ''#'' \<and> CHR 0x0D \<notin> set (dropWhile isSpace rest)
          then Some (dropWhile isSpace rest)
          else None)"

text \<open>The pattern \<open>/forge '(?<forge>[^']+)'/\<close>, matched at the first place it fits.\<close>

fun matchForge :: "string \<Rightarrow> string option" where
  "matchForge [] = None"
| "matchForge (c # cs) =
     (let w = c # cs; body = drop 7 w; f = takeWhile (\<lambda>x. x \<noteq> quote) body
      in if startsWith (''forge '' @ [quote]) w \<and> f \<noteq> [] \<and> length f < length body
         then Some f
         else matchForge cs)"

text \<open>
  The module pattern
  \<open>/^mod '(?<author>[^-]+)[-/](?<name>[^']+)'(,\s*'(?<version>[^']+)')?/m\<close>, matched at
  the start of the declaration. The author is tried longest first; it ends before a
  \<open>-\<close> or a \<open>/\<close> and holds no \<open>-\<close>. The result is the author, the name, the version
  if the optional group matches, and the text after the match.
\<close>

definition matchName :: "string \<Rightarrow> nat \<Rightarrow> (string \<times> string \<times> string) option" where
  "matchName rest k =
     (if 1 \<le> k \<and> k < length rest \<and> (rest ! k = CHR ''-'' \<or> rest ! k = CHR ''/'')
      then (let after = drop (Suc k) rest; nm = takeWhile (\<lambda>x. x \<noteq> quote) after
            in if nm \<noteq> [] \<and> length nm < length after
               then Some (take k rest, nm, drop (Suc (length nm)) after)
               else None)
      else None)"

fun firstSome :: "('a \<Rightarrow> 'b option) \<Rightarrow> 'a list \<Rightarrow> 'b option" where
  "firstSome f [] = None"
| "firstSome f (x # xs) = (case f x of Some y \<Rightarrow> Some y | None \<Rightarrow> firstSome f xs)"

definition matchVersion :: "string \<Rightarrow> string option \<times> string" where
  "matchVersion w =
     (case w of
        [] \<Rightarrow> (None, w)
      | c # cs \<Rightarrow>
          if c = CHR '','' then
            (case dropWhile isSpace cs of
               [] \<Rightarrow> (None, w)
             | q # body \<Rightarrow>
                 (let v = takeWhile (\<lambda>x. x \<noteq> quote) body
                  in if q = quote \<and> v \<noteq> [] \<and> length v < length body
                     then (Some v, drop (Suc (length v)) body)
                     else (None, w)))
          else (None, w))"

definition matchModule :: "string \<Rightarrow> (string \<times> string \<times> string option \<times> string) option" where
  "matchModule w =
     (if startsWith (''mod '' @ [quote]) w
      then (let rest = drop 5 w;
                longest = length (takeWhile (\<lambda>x. x \<noteq> CHR ''-'') rest)
            in case firstSome (matchName rest) (rev [1..<Suc longest]) of
                 None \<Rightarrow> None
               | Some (a, n, after) \<Rightarrow>
                   (case matchVersion after of (v, remainder) \<Rightarrow> Some (a, n, v, remainder)))
      else None)"

text \<open>
  The parameters of a declaration: what is left of it, without whitespace, cut at the
  commas; each piece, without quotes, cut at \<open>=>\<close> gives a key and a value.
\<close>

fun splitArrow :: "string \<Rightarrow> string list" where
  "splitArrow [] = [[]]"
| "splitArrow [c] = [[c]]"
| "splitArrow (c # d # cs) =
     (if c = CHR ''='' \<and> d = CHR ''>'' then [] # splitArrow cs
      else (case splitArrow (d # cs) of [] \<Rightarrow> [[c]] | w # ws \<Rightarrow> (c # w) # ws))"

definition parameterOf :: "string \<Rightarrow> string \<times> string option" where
  "parameterOf piece =
     (case splitArrow (filter (\<lambda>x. x \<noteq> quote) piece) of
        [] \<Rightarrow> ([], None)
      | [k] \<Rightarrow> (k, None)
      | k # v # _ \<Rightarrow> (k, Some v))"

definition parametersOf :: "string \<Rightarrow> (string \<times> string option) list" where
  "parametersOf remainder =
     fold (\<lambda>piece acc. case parameterOf piece of (k, v) \<Rightarrow> AList.update k v acc)
       (split_when (\<lambda>x. x = CHR '','') (filter (\<lambda>x. \<not> isSpace x) remainder)) []"

text \<open>
  What cloning a repository, checking out the reference and reading \<open>metadata.json\<close>
  gives is an input of the model.
\<close>

record GitMetadata =
  gm_version :: "string option"
  gm_dependencies :: "ForgeDependency list option"

type_synonym GitRepositories = "string \<Rightarrow> string option \<Rightarrow> error + GitMetadata"

definition fetchGitMetadata ::
  "GitRepositories \<Rightarrow> ModuleDeclaration \<Rightarrow> error + ModuleDeclaration" where
  "fetchGitMetadata repos m =
     (if \<not> truthy (git m) then Inl (Thrown ''About to fetch git metadata without a git setting'')
      else case repos (the (git m)) (if truthy (ref m) then ref m else None) of
             Inl e \<Rightarrow> Inl e
           | Inr md \<Rightarrow>
               Inr ((if \<not> truthy (version m) \<and> truthy (gm_version md)
                     then m\<lparr>version := gm_version md\<rparr> else m)
                    \<lparr>gitDependencies := gm_dependencies md\<rparr>))"

definition new_ModuleDeclaration :: ModuleDeclaration where
  "new_ModuleDeclaration =
     \<lparr>name = [], author = [], forgeModule = True, version = None, git = None, ref = None,
      comments = None, forgeApiUrl = None, gitDependencies = None\<rparr>"

definition module_fromText ::
  "GitRepositories \<Rightarrow> Forge \<Rightarrow> string \<Rightarrow> string \<Rightarrow> ForgeCache
     \<Rightarrow> error + (ModuleDeclaration \<times> ForgeCache)" where
  "module_fromText repos fg url w c =
     (case matchModule w of
        None \<Rightarrow> Inl (Thrown (''Invalid module declaration: '' @ w))
      | Some (a, n, v, remainder) \<Rightarrow>
          (let m0 = new_ModuleDeclaration\<lparr>forgeApiUrl := Some url, name := n, author := a\<rparr>;
               ps = parametersOf remainder
           in case map_of ps '':git'' of
                Some g \<Rightarrow>
                  (let m1 = m0\<lparr>git := g\<rparr>;
                       m2 = (case map_of ps '':ref'' of None \<Rightarrow> m1 | Some r \<Rightarrow> m1\<lparr>ref := r\<rparr>)
                   in case fetchGitMetadata repos (m2\<lparr>forgeModule := False\<rparr>) of
                        Inl e \<Rightarrow> Inl e
                      | Inr m3 \<Rightarrow> Inr (m3, c))
              | None \<Rightarrow>
                  if truthy v then Inr (m0\<lparr>version := v\<rparr>, c)
                  else
                    (case getAvailableVersions fg m0 c of
                       Inl e \<Rightarrow> Inl e
                     | Inr (l, c1) \<Rightarrow>
                         Inr (m0\<lparr>version := (case l of [] \<Rightarrow> None | x # _ \<Rightarrow> Some x)\<rparr>, c1))))"

record ParseState =
  currentDeclaration :: string
  inDeclaration :: bool
  inDependencies :: bool
  currentComment :: "string list"
  readingComment :: "string list"
  parsed :: PuppetFileText
  parseCache :: ForgeCache

definition addToModules ::
  "GitRepositories \<Rightarrow> Forge \<Rightarrow> ParseState \<Rightarrow> error + ParseState" where
  "addToModules repos fg ps =
     (if inDeclaration ps \<and> currentDeclaration ps \<noteq> []
      then
        (case module_fromText repos fg (t_forge (parsed ps)) (currentDeclaration ps)
                (parseCache ps) of
           Inl e \<Rightarrow> Inl e
         | Inr (m, c1) \<Rightarrow>
             (let newModule = m\<lparr>comments := Some (currentComment ps)\<rparr>;
                  pf = parsed ps
              in Inr (ps\<lparr>parseCache := c1,
                         parsed := (if inDependencies ps
                                    then pf\<lparr>t_dependentModules := t_dependentModules pf @ [newModule]\<rparr>
                                    else pf\<lparr>t_modules := t_modules pf @ [newModule]\<rparr>)\<rparr>)))
      else Inr ps)"

definition parseLine ::
  "GitRepositories \<Rightarrow> Forge \<Rightarrow> string \<Rightarrow> ParseState \<Rightarrow> error + ParseState" where
  "parseLine repos fg line ps =
     (if startsWith ''mod'' line \<or> includesText (t_dependencyIdentifier (parsed ps)) line
      then
        (case addToModules repos fg ps of
           Inl e \<Rightarrow> Inl e
         | Inr ps1 \<Rightarrow>
             (let ps2 = ps1\<lparr>currentComment := readingComment ps1, readingComment := []\<rparr>
              in if includesText (t_dependencyIdentifier (parsed ps)) line
                 then Inr (ps2\<lparr>inDependencies := True, currentDeclaration := [],
                                inDeclaration := False\<rparr>)
                 else Inr (ps2\<lparr>inDeclaration := True, currentDeclaration := line\<rparr>)))
      else case matchComment line of
             Some c \<Rightarrow> Inr (ps\<lparr>readingComment := readingComment ps @ [c]\<rparr>)
           | None \<Rightarrow>
               if list_all isSpace line then Inr (ps\<lparr>readingComment := []\<rparr>)
               else if inDeclaration ps
                 then Inr (ps\<lparr>currentDeclaration := currentDeclaration ps @ line\<rparr>)
               else (case matchForge line of
                       Some f \<Rightarrow> Inr (ps\<lparr>parsed := (parsed ps)\<lparr>t_forge := f\<rparr>\<rparr>)
                     | None \<Rightarrow> Inr ps))"

fun parseLines ::
  "GitRepositories \<Rightarrow> Forge \<Rightarrow> string list \<Rightarrow> ParseState \<Rightarrow> error + ParseState" where
  "parseLines repos fg [] ps = Inr ps"
| "parseLines repos fg (l # ls) ps =
     (case parseLine repos fg l ps of
        Inl e \<Rightarrow> Inl e
      | Inr ps1 \<Rightarrow> parseLines repos fg ls ps1)"

definition fromText ::
  "GitRepositories \<Rightarrow> Forge \<Rightarrow> string \<Rightarrow> PuppetFileText \<Rightarrow> ForgeCache
     \<Rightarrow> error + (PuppetFileText \<times> ForgeCache)" where
  "fromText repos fg w pf c =
     (case parseLines repos fg (splitLines w)
             \<lparr>currentDeclaration = [], inDeclaration = False, inDependencies = False,
              currentComment = [], readingComment = [], parsed = pf, parseCache = c\<rparr> of
        Inl e \<Rightarrow> Inl e
      | Inr ps \<Rightarrow>
          (case addToModules repos fg ps of
             Inl e \<Rightarrow> Inl e
           | Inr ps1 \<Rightarrow> Inr (parsed ps1, parseCache ps1)))"


section \<open>Puppetfile text: the lines of the emitted text and what parsing them gives\<close>

text \<open>
  A line of text: no line feed and no carriage return in it.
\<close>

definition plainLine :: "string \<Rightarrow> bool" where
  "plainLine l \<longleftrightarrow> CHR 0x0A \<notin> set l \<and> CHR 0x0D \<notin> set l"


definition gitParamLines :: "ModuleDeclaration \<Rightarrow> string list" where
  "gitParamLines m =
     (if truthy (ref m)
      then [''    :git => '' @ [CHR 0x27] @ escapeExpression (or_empty (git m)) @ [CHR 0x27] @ '','',
            ''    :ref => '' @ [CHR 0x27] @ escapeExpression (or_empty (ref m)) @ [CHR 0x27]]
      else [''    :git => '' @ [CHR 0x27] @ escapeExpression (or_empty (git m)) @ [CHR 0x27]])"



definition plainHead :: "ModuleDeclaration \<Rightarrow> bool" where
  "plainHead m \<longleftrightarrow>
     plainLine (escapeExpression (author m)) \<and> plainLine (escapeExpression (name m))
     \<and> (\<forall>c \<in> set (case comments m of None \<Rightarrow> [] | Some cs \<Rightarrow> cs). plainLine c)"


definition plainGit :: "ModuleDeclaration \<Rightarrow> bool" where
  "plainGit m \<longleftrightarrow>
     plainHead m \<and> plainLine (escapeExpression (or_empty (git m)))
     \<and> plainLine (escapeExpression (or_empty (ref m)))"



text \<open>
  Text that the template writes as it is: none of the characters that Handlebars
  escapes. A field is such a text, not empty, on one line; the value of a parameter
  has no whitespace and no comma either.
\<close>

definition escapeFree :: "string \<Rightarrow> bool" where
  "escapeFree w \<longleftrightarrow>
     (\<forall>c \<in> set w. c \<notin> {CHR ''&'', CHR ''<'', CHR ''>'', CHR 0x22, CHR 0x27, CHR 0x60, CHR ''=''})"













text \<open>
  \<open>addToModules\<close> pushes the module on one of the two lists.
\<close>

definition appendMod :: "bool \<Rightarrow> PuppetFileText \<Rightarrow> ModuleDeclaration \<Rightarrow> PuppetFileText" where
  "appendMod dep pf m =
     (if dep then pf\<lparr>t_dependentModules := t_dependentModules pf @ [m]\<rparr>
      else pf\<lparr>t_modules := t_modules pf @ [m]\<rparr>)"



section \<open>Notions used by the statements\<close>

text \<open>
  The graph validates version \<open>v\<close> for the node \<open>slug\<close>: every incoming edge of the
  node carries a range that \<open>v\<close> satisfies.
\<close>

definition graphValidates ::
  "(string \<Rightarrow> Range \<Rightarrow> bool) \<Rightarrow> DependencyGraph \<Rightarrow> string \<Rightarrow> string \<Rightarrow> bool" where
  "graphValidates sat g slug v =
     list_all (\<lambda>e. case dependencyRange (edge_attrs e) of None \<Rightarrow> False | Some rg \<Rightarrow> sat v rg)
       (inEdgesOf g slug)"

text \<open>
  The version search stops at \<open>v\<close>: the version is not empty and the graph validates
  it.
\<close>

definition searchAccepts ::
  "(string \<Rightarrow> Range \<Rightarrow> bool) \<Rightarrow> DependencyGraph \<Rightarrow> string \<Rightarrow> string \<Rightarrow> bool" where
  "searchAccepts sat g slug v \<longleftrightarrow> v \<noteq> [] \<and> graphValidates sat g slug v"

text \<open>
  The range of the requirement that \<open>withPuppetFile\<close> queues for a module: the range
  \<open>=version\<close> as the library constructs it. There is none when the library refuses
  that text, or the text \<open><= version\<close> that \<open>withTargetModule\<close> has it construct first
  for a module with a version. A module without a version stands for the text \<open>=\<close>.
\<close>

definition puppetfileRange :: "Libraries \<Rightarrow> heap \<Rightarrow> mref \<Rightarrow> Range option" where
  "puppetfileRange lib hp m =
     (case version (hp ! m) of
        Some (c # cs) \<Rightarrow>
          (case rangeText lib (''<= '' @ c # cs) of
             None \<Rightarrow> None
           | Some k \<Rightarrow> map_option (Range (''='' @ c # cs)) (rangeText lib (''='' @ c # cs)))
      | _ \<Rightarrow> map_option (Range ''='') (rangeText lib ''=''))"

text \<open>
  Every edge of the graph that does not end at a module of the list \<open>ig\<close> carries a
  range that the version of its own target module (the \<open>targetModule\<close> attribute of the
  edge) satisfies, or that version is unset.
\<close>

definition edgesSatisfied :: "(string \<Rightarrow> Range \<Rightarrow> bool) \<Rightarrow> string list \<Rightarrow> rstate \<Rightarrow> bool" where
  "edgesSatisfied sat ig s =
     list_all (\<lambda>e. edge_target e \<in> set ig \<or>
                    (case targetModule (edge_attrs e) of
                       None \<Rightarrow> False
                     | Some t \<Rightarrow> edgeSatisfied sat (modules s ! t) e))
       (edges (graph s))"

text \<open>The graph validator holds for the module of every node of the graph.\<close>

definition nodesValid :: "(string \<Rightarrow> Range \<Rightarrow> bool) \<Rightarrow> rstate \<Rightarrow> bool" where
  "nodesValid sat s =
     list_all (\<lambda>nd. case node_module nd of
                       None \<Rightarrow> True
                     | Some m \<Rightarrow> isValid sat (graph s) (modules s ! m) = Inr True)
       (nodes (graph s))"

text \<open>
  The node carries a module, and the target module of every edge that ends at the node
  has the version of that module. (The module of a node is the target of the requirement
  that created the node; the target of a later edge is another object.)
\<close>

definition versionsAgree :: "rstate \<Rightarrow> GNode \<Rightarrow> bool" where
  "versionsAgree s nd =
     (case node_module nd of
        None \<Rightarrow> False
      | Some m \<Rightarrow>
          list_all (\<lambda>e. case targetModule (edge_attrs e) of
                           None \<Rightarrow> False
                         | Some t \<Rightarrow> version (modules s ! t) = version (modules s ! m))
            (inEdgesOf (graph s) (node_key nd)))"

text \<open>The target and the source module of every requirement of the list are references below \<open>n\<close>.\<close>

definition refsBelow :: "nat \<Rightarrow> Requirement list \<Rightarrow> bool" where
  "refsBelow n rs =
     list_all (\<lambda>r. (case targetModule r of None \<Rightarrow> True | Some t \<Rightarrow> t < n)
                  \<and> (case sourceModule r of None \<Rightarrow> True | Some m \<Rightarrow> m < n)) rs"


text \<open>
  What the version search leaves alone: the graph, the store, the warnings, and every
  module but the target, of which only the version may change.
\<close>

definition searchFrame :: "mref \<Rightarrow> rstate \<Rightarrow> rstate \<Rightarrow> bool" where
  "searchFrame t s s' \<longleftrightarrow>
     graph s' = graph s \<and> store s' = store s \<and> warnings s' = warnings s
     \<and> length (modules s') = length (modules s)
     \<and> (\<forall>i. i \<noteq> t \<longrightarrow> modules s' ! i = modules s ! i)
     \<and> getSlug (modules s' ! t) = getSlug (modules s ! t)"



text \<open>What a run of \<open>resolve\<close> ended with.\<close>

definition failure :: "(error \<times> rstate + 'a) option \<Rightarrow> (error \<times> string list) option" where
  "failure x = (case x of Some (Inl (e, s)) \<Rightarrow> Some (e, warnings s) | _ \<Rightarrow> None)"

definition succeeded :: "(error \<times> rstate + 'a) option \<Rightarrow> bool" where
  "succeeded x = (case x of Some (Inr y) \<Rightarrow> True | _ \<Rightarrow> False)"

definition finalState :: "(error \<times> rstate + PuppetFile \<times> rstate) option \<Rightarrow> rstate option" where
  "finalState x = (case x of Some (Inr (out, s)) \<Rightarrow> Some s | _ \<Rightarrow> None)"

text \<open>The slugs of the top-level and of the dependent modules of a returned Puppetfile.\<close>

definition resolved ::
  "(error \<times> rstate + PuppetFile \<times> rstate) option \<Rightarrow> (string list \<times> string list) option" where
  "resolved x =
     (case x of
        Some (Inr (out, s)) \<Rightarrow>
          Some (map (slugOf (modules s)) (pf_modules out),
                map (slugOf (modules s)) (pf_dependentModules out))
      | _ \<Rightarrow> None)"

section \<open>Example inputs\<close>

definition ex_module :: "string \<Rightarrow> string \<Rightarrow> string option \<Rightarrow> ModuleDeclaration" where
  "ex_module a n v =
     \<lparr>name = n, author = a, forgeModule = True, version = v, git = None, ref = None,
      comments = Some [], forgeApiUrl = Some ''http://localhost'', gitDependencies = None\<rparr>"

definition ex_data :: "string list \<Rightarrow> ModuleData" where
  "ex_data rs =
     \<lparr>md_releases = Some rs, deprecated_at = None, deprecated_for = None, superseded_by = None\<rparr>"

definition ex_dep :: "string \<Rightarrow> string \<Rightarrow> ForgeDependency" where
  "ex_dep n rg = \<lparr>dep_name = n, version_requirement = Some rg\<rparr>"

definition ex_edge :: "mref \<Rightarrow> string \<Rightarrow> mref \<Rightarrow> string \<Rightarrow> string \<Rightarrow> GEdge" where
  "ex_edge sm s tm t rg =
     \<lparr>edge_key = s @ ''.'' @ t, edge_source = s, edge_target = t,
      edge_attrs = \<lparr>targetModule = Some tm, sourceModule = Some sm, source = Some Dependency,
                    dependencyRange = Some (ex_range rg)\<rparr>\<rparr>"

text \<open>
  The requirement of a Puppetfile for the module \<open>m\<close> at version \<open>v\<close>, and the state of
  a resolver in a fresh process with the given queue.
\<close>

definition ex_requirement :: "mref \<Rightarrow> string \<Rightarrow> Requirement" where
  "ex_requirement m v =
     \<lparr>targetModule = Some m, sourceModule = None, source = Some Puppetfile,
      dependencyRange = Some (ex_range (''='' @ v))\<rparr>"

definition ex_state :: "heap \<Rightarrow> RequirementsStore \<Rightarrow> rstate" where
  "ex_state hp st =
     \<lparr>modules = hp, graph = empty_graph, store = st, cache = empty_cache, warnings = []\<rparr>"

definition ex_resolver :: "mref list \<Rightarrow> string list \<Rightarrow> string list \<Rightarrow> DependencyResolver" where
  "ex_resolver ms ig hl =
     \<lparr>sourcePuppetfile = \<lparr>pf_modules = ms, pf_dependentModules = [],
                           pf_forge = ''http://localhost'', pf_preamble = []\<rparr>,
      ignoreList = ig, hideList = hl\<rparr>"

text \<open>
  The graph of the requirement tests: the target \<open>test-target\<close> at 0.9.0 with the
  releases 0.9.0 and 1.0.0, required by \<open>test-source1\<close> and \<open>test-source2\<close>.
\<close>

definition search_forge :: Forge where
  "search_forge =
     \<lparr>forge_modules = [(''test-target'', ex_data [''0.9.0'', ''1.0.0'']),
                       (''test-source1'', ex_data []), (''test-source2'', ex_data [])],
      forge_releases = [(''test-target-0.9.0'', []), (''test-target-1.0.0'', [])]\<rparr>"

text \<open>The same registry, with an empty version text in front of the release 1.0.0.\<close>

definition empty_version_forge :: Forge where
  "empty_version_forge =
     \<lparr>forge_modules = [(''test-target'', ex_data [[], ''1.0.0'']),
                       (''test-source1'', ex_data []), (''test-source2'', ex_data [])],
      forge_releases = [(''test-target-1.0.0'', [])]\<rparr>"

definition search_state :: "string \<Rightarrow> string \<Rightarrow> rstate" where
  "search_state rg1 rg2 =
     \<lparr>modules = [ex_module ''test'' ''target'' (Some ''0.9.0''),
                 ex_module ''test'' ''source1'' None,
                 ex_module ''test'' ''source2'' None],
      graph = \<lparr>nodes = [\<lparr>node_key = ''test-target'', node_module = None\<rparr>,
                        \<lparr>node_key = ''test-source1'', node_module = None\<rparr>,
                        \<lparr>node_key = ''test-source2'', node_module = None\<rparr>],
               edges = [ex_edge 1 ''test-source1'' 0 ''test-target'' rg1,
                        ex_edge 2 ''test-source2'' 0 ''test-target'' rg2]\<rparr>,
      store = [], cache = empty_cache, warnings = []\<rparr>"

definition search_requirement :: "string \<Rightarrow> Requirement" where
  "search_requirement rg = edge_attrs (ex_edge 1 ''test-source1'' 0 ''test-target'' rg)"

text \<open>A Puppetfile with the single top-level module \<open>test-test1\<close> at 1.2.3.\<close>

definition single_heap :: heap where
  "single_heap = [ex_module ''test'' ''test1'' (Some ''1.2.3'')]"

definition single_puppetfile :: PuppetFile where
  "single_puppetfile = sourcePuppetfile (ex_resolver [0] [] [])"

text \<open>A module at the version \<open>latest\<close>, and a module without a version.\<close>

definition latest_heap :: heap where
  "latest_heap = [ex_module ''test'' ''one'' (Some ''latest'')]"

definition unversioned_heap :: heap where
  "unversioned_heap = [ex_module ''test'' ''test1'' None]"

definition two_versions_heap :: heap where
  "two_versions_heap = [ex_module ''test'' ''one'' (Some ''1.0.0''),
                        ex_module ''test'' ''two'' (Some ''2.0.0'')]"

text \<open>
  The registry of the resolver tests: \<open>test-wrongdepa\<close> needs \<open>test/wrongdepc >=1.2.3\<close>,
  \<open>test-wrongdepb\<close> needs \<open>test/wrongdepc <1.2.3\<close>, and only \<open>test-wrongdepc\<close> 1.2.3
  exists. Here \<open>test-wrongdepb\<close> needs the deprecated \<open>test-deprecated\<close> as well.
\<close>

definition wrongdep_forge :: "ForgeDependency list \<Rightarrow> Forge" where
  "wrongdep_forge extra =
     \<lparr>forge_modules =
        [(''test-wrongdepa'', ex_data [''1.2.3'']),
         (''test-wrongdepb'', ex_data [''1.2.3'']),
         (''test-wrongdepc'', ex_data [''1.2.3'']),
         (''test-deprecated'',
            \<lparr>md_releases = Some [''1.2.3''], deprecated_at = Some ''2023-06-12T14:14:00.000Z'',
             deprecated_for = Some ''some reason'', superseded_by = Some ''other-module''\<rparr>)],
      forge_releases =
        [(''test-wrongdepa-1.2.3'', [ex_dep ''test/wrongdepc'' ''>=1.2.3'']),
         (''test-wrongdepb-1.2.3'', ex_dep ''test/wrongdepc'' ''<1.2.3'' # extra),
         (''test-wrongdepc-1.2.3'', []),
         (''test-deprecated-1.2.3'', [])]\<rparr>"

definition wrongdep_heap :: heap where
  "wrongdep_heap = [ex_module ''test'' ''wrongdepa'' (Some ''1.2.3''),
                    ex_module ''test'' ''wrongdepb'' (Some ''1.2.3'')]"

definition wrongdep_resolver :: DependencyResolver where
  "wrongdep_resolver = ex_resolver [0, 1] [''test-wrongdepc''] []"

definition wrongdep_state :: rstate where
  "wrongdep_state = ex_state wrongdep_heap [ex_requirement 0 ''1.2.3'', ex_requirement 1 ''1.2.3'']"

text \<open>
  The first resolver test: \<open>test-default\<close> 1.2.3 needs \<open>test/defaultdependency >= 1.2.4\<close>,
  of which 1.2.5 exists.
\<close>

definition default_forge :: Forge where
  "default_forge =
     \<lparr>forge_modules = [(''test-default'', ex_data [''1.2.3'']),
                       (''test-defaultdependency'', ex_data [''1.2.5''])],
      forge_releases = [(''test-default-1.2.3'', [ex_dep ''test/defaultdependency'' ''>= 1.2.4'']),
                        (''test-defaultdependency-1.2.5'', [])]\<rparr>"

definition default_resolver :: DependencyResolver where
  "default_resolver = ex_resolver [0] [] []"

definition default_heap :: heap where
  "default_heap = [ex_module ''test'' ''default'' (Some ''1.2.3'')]"

definition default_state :: rstate where
  "default_state = ex_state default_heap [ex_requirement 0 ''1.2.3'']"

text \<open>
  A Puppetfile that declares \<open>test-tool\<close> twice, at 2.0.0 and at 1.0.0, after
  \<open>test-app\<close> 1.0.0, which needs \<open>test/lib <2.0.0\<close>; \<open>test-lib\<close> has the releases 2.0.0
  and 1.0.0.
\<close>

definition twice_forge :: Forge where
  "twice_forge =
     \<lparr>forge_modules = [(''test-app'', ex_data [''1.0.0'']),
                       (''test-tool'', ex_data [''2.0.0'', ''1.0.0'']),
                       (''test-lib'', ex_data [''2.0.0'', ''1.0.0''])],
      forge_releases = [(''test-app-1.0.0'', [ex_dep ''test/lib'' ''<2.0.0'']),
                        (''test-tool-2.0.0'', []), (''test-tool-1.0.0'', []),
                        (''test-lib-2.0.0'', []), (''test-lib-1.0.0'', [])]\<rparr>"

definition twice_heap :: heap where
  "twice_heap = [ex_module ''test'' ''app'' (Some ''1.0.0''),
                 ex_module ''test'' ''tool'' (Some ''2.0.0''),
                 ex_module ''test'' ''tool'' (Some ''1.0.0'')]"

definition twice_resolver :: DependencyResolver where
  "twice_resolver = ex_resolver [0, 1, 2] [] []"

definition twice_state :: rstate where
  "twice_state =
     ex_state twice_heap
       [ex_requirement 0 ''1.0.0'', ex_requirement 1 ''2.0.0'', ex_requirement 2 ''1.0.0'']"

text \<open>
  A registry that lists no release of \<open>test-s\<close> and still answers for its releases
  1.0.0 and \<open>undefined\<close>; \<open>test-a\<close> 1.0.0 needs \<open>test/s >=2.0.0\<close>. The Puppetfile
  declares \<open>test-a\<close> 1.0.0 and \<open>test-s\<close> 1.0.0.
\<close>

definition unreleased_forge :: Forge where
  "unreleased_forge =
     \<lparr>forge_modules = [(''test-a'', ex_data [''1.0.0'']), (''test-s'', ex_data [])],
      forge_releases = [(''test-a-1.0.0'', [ex_dep ''test/s'' ''>=2.0.0'']),
                        (''test-s-1.0.0'', []), (''test-s-undefined'', [])]\<rparr>"

definition unreleased_heap :: heap where
  "unreleased_heap = [ex_module ''test'' ''a'' (Some ''1.0.0''),
                      ex_module ''test'' ''s'' (Some ''1.0.0'')]"

definition unreleased_resolver :: DependencyResolver where
  "unreleased_resolver = ex_resolver [0, 1] [] []"

definition unreleased_state :: rstate where
  "unreleased_state =
     ex_state unreleased_heap [ex_requirement 0 ''1.0.0'', ex_requirement 1 ''1.0.0'']"

text \<open>Requirements without a dependency range and without a target module.\<close>

definition no_range :: Requirement where
  "no_range = new_Requirement\<lparr>targetModule := Some 0, source := Some Puppetfile\<rparr>"

definition no_target :: Requirement where
  "no_target =
     new_Requirement\<lparr>source := Some Puppetfile, dependencyRange := Some (ex_range ''>=0.9.0'')\<rparr>"

text \<open>
  The Puppetfile of the test ``should generate the correct puppet file text'', and the
  same Puppetfile with a preamble.
\<close>

definition roundtrip_repos :: GitRepositories where
  "roundtrip_repos g r = Inr \<lparr>gm_version = Some ''0.1.2'', gm_dependencies = None\<rparr>"

definition roundtrip_forge :: Forge where
  "roundtrip_forge = \<lparr>forge_modules = [], forge_releases = []\<rparr>"

definition roundtrip_puppetfile :: PuppetFileText where
  "roundtrip_puppetfile =
     new_PuppetFile
       \<lparr>t_modules :=
          [new_ModuleDeclaration\<lparr>name := ''git'', author := ''test'', forgeModule := False,
             git := Some ''/tmp/repository'', ref := Some ''test''\<rparr>,
           new_ModuleDeclaration\<lparr>name := ''default'', author := ''test'',
             version := Some ''1.2.3''\<rparr>,
           new_ModuleDeclaration\<lparr>name := ''default2'', author := ''test'',
             version := Some ''1.2.3'',
             comments := Some [''Some comment'', ''before the module'']\<rparr>],
        t_dependentModules :=
          [new_ModuleDeclaration\<lparr>name := ''dependency'', author := ''test'',
             version := Some ''1.2.4''\<rparr>],
        t_forge := ''http://localhost:8080''\<rparr>"


text \<open>
  The same Puppetfile with the dependency identifier of the test ``should work with
  another dependency indicator''.
\<close>

definition identifier_puppetfile :: PuppetFileText where
  "identifier_puppetfile =
     roundtrip_puppetfile\<lparr>t_dependencyIdentifier := ''## <<dependencies''\<rparr>"
section \<open>Requirement builders\<close>

text \<open>
  C10 (amended). \<open>withTargetModule\<close> sets the target. When the target declaration
  carries a version and the requirement has no dependency range yet, it has the library
  construct the range \<open><= version\<close>: the range is set to it, or the \<open>TypeError\<close> of the
  library is thrown when the version is not one the library accepts. When a range is
  already set or the target has no version, nothing else changes and nothing is thrown.
  As to the order of the calls: after \<open>withDependencyRange\<close>, \<open>withTargetModule\<close> keeps the
  range and does not throw; before it, it may throw, and when it does not, the result is
  the same in either order; of two targets with different versions, the one given first
  fixes the range.
\<close>

theorem withTargetModule_range:
  "(truthy (version (hp ! d)) \<and> dependencyRange r = None \<longrightarrow>
      withTargetModule lib hp d r =
        (case rangeText lib (''<= '' @ the (version (hp ! d))) of
           None \<Rightarrow> Inl (TypeError (''<= '' @ the (version (hp ! d))))
         | Some n \<Rightarrow>
             Inr (r\<lparr>targetModule := Some d,
                     dependencyRange := Some (Range (''<= '' @ the (version (hp ! d))) n)\<rparr>)))
   \<and> (\<not> (truthy (version (hp ! d)) \<and> dependencyRange r = None) \<longrightarrow>
        withTargetModule lib hp d r = Inr (r\<lparr>targetModule := Some d\<rparr>))
   \<and> withTargetModule lib hp d (withDependencyRange x r)
       = Inr (r\<lparr>targetModule := Some d, dependencyRange := Some x\<rparr>)
   \<and> (\<forall>r1. withTargetModule lib hp d r = Inr r1 \<longrightarrow>
          withDependencyRange x r1 = r\<lparr>targetModule := Some d, dependencyRange := Some x\<rparr>)
   \<and> (\<forall>a ab b ba. truthy (version (hp ! d)) \<and> truthy (version (hp ! d'))
          \<and> version (hp ! d) \<noteq> version (hp ! d')
          \<and> withTargetModule lib hp d new_Requirement = Inr a
          \<and> withTargetModule lib hp d' a = Inr ab
          \<and> withTargetModule lib hp d' new_Requirement = Inr b
          \<and> withTargetModule lib hp d b = Inr ba
          \<longrightarrow> dependencyRange ab \<noteq> dependencyRange ba)"
proof (intro conjI impI allI)
  assume "truthy (version (hp ! d)) \<and> dependencyRange r = None"
  then show "withTargetModule lib hp d r =
        (case rangeText lib (''<= '' @ the (version (hp ! d))) of
           None \<Rightarrow> Inl (TypeError (''<= '' @ the (version (hp ! d))))
         | Some n \<Rightarrow>
             Inr (r\<lparr>targetModule := Some d,
                     dependencyRange := Some (Range (''<= '' @ the (version (hp ! d))) n)\<rparr>))"
    by (simp add: withTargetModule_def new_Range_def Let_def split: option.splits)
next
  assume "\<not> (truthy (version (hp ! d)) \<and> dependencyRange r = None)"
  then show "withTargetModule lib hp d r = Inr (r\<lparr>targetModule := Some d\<rparr>)"
    by (auto simp: withTargetModule_def Let_def)
next
  show "withTargetModule lib hp d (withDependencyRange x r)
          = Inr (r\<lparr>targetModule := Some d, dependencyRange := Some x\<rparr>)"
    by (simp add: withTargetModule_def withDependencyRange_def Let_def)
next
  fix r1 assume "withTargetModule lib hp d r = Inr r1"
  then show "withDependencyRange x r1 = r\<lparr>targetModule := Some d, dependencyRange := Some x\<rparr>"
    by (auto simp: withTargetModule_def withDependencyRange_def Let_def
             split: if_splits sum.splits)
next
  fix a ab b ba
  assume h: "truthy (version (hp ! d)) \<and> truthy (version (hp ! d'))
          \<and> version (hp ! d) \<noteq> version (hp ! d')
          \<and> withTargetModule lib hp d new_Requirement = Inr a
          \<and> withTargetModule lib hp d' a = Inr ab
          \<and> withTargetModule lib hp d' new_Requirement = Inr b
          \<and> withTargetModule lib hp d b = Inr ba"
  then have ne: "the (version (hp ! d)) \<noteq> the (version (hp ! d'))"
    by (cases "version (hp ! d)"; cases "version (hp ! d')") simp_all
  from h have "raw_text (the (dependencyRange ab)) = ''<= '' @ the (version (hp ! d))"
    by (auto simp: withTargetModule_def new_Range_def new_Requirement_def Let_def
             split: option.splits sum.splits)
  moreover from h have "raw_text (the (dependencyRange ba)) = ''<= '' @ the (version (hp ! d'))"
    by (auto simp: withTargetModule_def new_Range_def new_Requirement_def Let_def
             split: option.splits sum.splits)
  ultimately show "dependencyRange ab \<noteq> dependencyRange ba" using ne by auto
qed

theorem withTargetModule_range_witness:
  "truthy (version (two_versions_heap ! 0)) \<and> truthy (version (two_versions_heap ! 1))
   \<and> version (two_versions_heap ! 0) \<noteq> version (two_versions_heap ! 1)
   \<and> dependencyRange new_Requirement = None
   \<and> withTargetModule semver two_versions_heap 0 new_Requirement
       = Inr (new_Requirement\<lparr>targetModule := Some 0,
                dependencyRange := Some (Range ''<= 1.0.0'' ''<=1.0.0'')\<rparr>)
   \<and> withTargetModule semver two_versions_heap 1
        (new_Requirement\<lparr>targetModule := Some 0,
           dependencyRange := Some (Range ''<= 1.0.0'' ''<=1.0.0'')\<rparr>)
       = Inr (new_Requirement\<lparr>targetModule := Some 1,
                dependencyRange := Some (Range ''<= 1.0.0'' ''<=1.0.0'')\<rparr>)
   \<and> withTargetModule semver two_versions_heap 1 new_Requirement
       = Inr (new_Requirement\<lparr>targetModule := Some 1,
                dependencyRange := Some (Range ''<= 2.0.0'' ''<=2.0.0'')\<rparr>)
   \<and> withTargetModule semver two_versions_heap 0
        (new_Requirement\<lparr>targetModule := Some 1,
           dependencyRange := Some (Range ''<= 2.0.0'' ''<=2.0.0'')\<rparr>)
       = Inr (new_Requirement\<lparr>targetModule := Some 0,
                dependencyRange := Some (Range ''<= 2.0.0'' ''<=2.0.0'')\<rparr>)
   \<and> dependencyRange (new_Requirement\<lparr>targetModule := Some 1,
                dependencyRange := Some (Range ''<= 1.0.0'' ''<=1.0.0'')\<rparr>)
       \<noteq> dependencyRange (new_Requirement\<lparr>targetModule := Some 0,
                dependencyRange := Some (Range ''<= 2.0.0'' ''<=2.0.0'')\<rparr>)
   \<and> withTargetModule semver two_versions_heap 0
        (withDependencyRange (Range ''>=1.5.0'' ''>=1.5.0'') new_Requirement)
       = Inr (new_Requirement\<lparr>targetModule := Some 0,
                dependencyRange := Some (Range ''>=1.5.0'' ''>=1.5.0'')\<rparr>)
   \<and> withDependencyRange (Range ''>=1.5.0'' ''>=1.5.0'')
        (new_Requirement\<lparr>targetModule := Some 0,
           dependencyRange := Some (Range ''<= 1.0.0'' ''<=1.0.0'')\<rparr>)
       = new_Requirement\<lparr>targetModule := Some 0,
           dependencyRange := Some (Range ''>=1.5.0'' ''>=1.5.0'')\<rparr>"
proof -
  let ?hp = two_versions_heap
  let ?x = "Range ''>=1.5.0'' ''>=1.5.0''"
  let ?a = "new_Requirement\<lparr>targetModule := Some 0,
              dependencyRange := Some (Range ''<= 1.0.0'' ''<=1.0.0'')\<rparr>"
  let ?ab = "new_Requirement\<lparr>targetModule := Some 1,
              dependencyRange := Some (Range ''<= 1.0.0'' ''<=1.0.0'')\<rparr>"
  let ?b = "new_Requirement\<lparr>targetModule := Some 1,
              dependencyRange := Some (Range ''<= 2.0.0'' ''<=2.0.0'')\<rparr>"
  let ?ba = "new_Requirement\<lparr>targetModule := Some 0,
              dependencyRange := Some (Range ''<= 2.0.0'' ''<=2.0.0'')\<rparr>"
  have t0: "truthy (version (?hp ! 0))" and t1: "truthy (version (?hp ! 1))"
    and ne: "version (?hp ! 0) \<noteq> version (?hp ! 1)"
    and n: "dependencyRange new_Requirement = None"
    by (simp_all add: two_versions_heap_def ex_module_def new_Requirement_def)
  have v0: "the (version (?hp ! 0)) = ''1.0.0''"
    and v1: "the (version (?hp ! Suc 0)) = ''2.0.0''"
    by (simp_all add: two_versions_heap_def ex_module_def)
  have rt0: "rangeText semver ''<= 1.0.0'' = Some ''<=1.0.0''" by code_simp
  have rt1: "rangeText semver ''<= 2.0.0'' = Some ''<=2.0.0''" by code_simp
  note w0 = withTargetModule_range [of ?hp 0 new_Requirement semver ?x 1]
  note w1 = withTargetModule_range [of ?hp 1 new_Requirement semver ?x 0]
  from w0 t0 n have a: "withTargetModule semver ?hp 0 new_Requirement = Inr ?a"
    by (simp add: v0 rt0)
  from w1 t1 n have b: "withTargetModule semver ?hp 1 new_Requirement = Inr ?b"
    by (simp add: v1 rt1)
  from withTargetModule_range [of ?hp 1 ?a semver ?x 0]
  have ab: "withTargetModule semver ?hp 1 ?a = Inr ?ab" by simp
  from withTargetModule_range [of ?hp 0 ?b semver ?x 1]
  have ba: "withTargetModule semver ?hp 0 ?b = Inr ?ba" by simp
  from w0 t0 t1 ne a ab b ba have d: "dependencyRange ?ab \<noteq> dependencyRange ?ba" by blast
  from w0 have o1: "withTargetModule semver ?hp 0 (withDependencyRange ?x new_Requirement)
                      = Inr (new_Requirement\<lparr>targetModule := Some 0, dependencyRange := Some ?x\<rparr>)"
    by blast
  from w0 a have o2: "withDependencyRange ?x ?a
                      = new_Requirement\<lparr>targetModule := Some 0, dependencyRange := Some ?x\<rparr>"
    by blast
  from t0 t1 ne n a ab b ba d o1 o2 show ?thesis by blast
qed

text \<open>
  C10 as stated fails for a target at the version \<open>latest\<close>: the library refuses the
  range \<open><= latest\<close>, and \<open>withTargetModule\<close> throws instead of setting a range.
\<close>

theorem withTargetModule_throws:
  "truthy (version (latest_heap ! 0)) \<and> dependencyRange new_Requirement = None
   \<and> withTargetModule semver latest_heap 0 new_Requirement = Inl (TypeError ''<= latest'')"
  by code_simp

section \<open>Requirements store\<close>

lemma dequeues_map: "dequeues (length rs) rs = (map Some rs, [])"
  by (induction rs) simp_all

lemma puppetfileRequirement_range:
  "puppetfileRange lib hp m = Some rg \<Longrightarrow>
   puppetfileRequirement lib hp m =
     Inr \<lparr>targetModule = Some m, sourceModule = None, source = Some Puppetfile,
          dependencyRange = Some rg\<rparr>"
  by (auto simp: puppetfileRequirement_def puppetfileRange_def withTargetModule_def new_Range_def
        withDependencyRange_def withSource_def new_Requirement_def or_empty_def Let_def
        split: option.splits list.splits)

lemma puppetfileRequirement_throws:
  "puppetfileRange lib hp m = None \<Longrightarrow> \<exists>w. puppetfileRequirement lib hp m = Inl (TypeError w)"
  by (auto simp: puppetfileRequirement_def puppetfileRange_def withTargetModule_def new_Range_def
        new_Requirement_def or_empty_def Let_def split: option.splits list.splits)

lemma addPuppetfileRequirements_all:
  "list_all (\<lambda>m. puppetfileRange lib hp m \<noteq> None) ms \<Longrightarrow>
     addPuppetfileRequirements lib hp ms st =
       Inr (st @ map (\<lambda>m. \<lparr>targetModule = Some m, sourceModule = None, source = Some Puppetfile,
                            dependencyRange = puppetfileRange lib hp m\<rparr>) ms)"
proof (induction ms arbitrary: st)
  case Nil
  show ?case by simp
next
  case (Cons m ms)
  then obtain rg where rg: "puppetfileRange lib hp m = Some rg" by auto
  have "puppetfileRequirement lib hp m =
          Inr \<lparr>targetModule = Some m, sourceModule = None, source = Some Puppetfile,
               dependencyRange = Some rg\<rparr>"
    using puppetfileRequirement_range [OF rg] .
  then show ?case using Cons rg by (simp add: addRequirement_def)
qed

lemma addPuppetfileRequirements_throws:
  "\<not> list_all (\<lambda>m. puppetfileRange lib hp m \<noteq> None) ms \<Longrightarrow>
     \<exists>w. addPuppetfileRequirements lib hp ms st = Inl (TypeError w)"
proof (induction ms arbitrary: st)
  case Nil
  then show ?case by simp
next
  case (Cons m ms)
  show ?case
  proof (cases "puppetfileRange lib hp m")
    case None
    from puppetfileRequirement_throws [OF this] show ?thesis by auto
  next
    case (Some rg)
    have "puppetfileRequirement lib hp m =
          Inr \<lparr>targetModule = Some m, sourceModule = None, source = Some Puppetfile,
               dependencyRange = Some rg\<rparr>"
      using puppetfileRequirement_range [OF Some] .
    moreover have "\<not> list_all (\<lambda>m. puppetfileRange lib hp m \<noteq> None) ms"
      using Cons.prems Some by simp
    ultimately show ?thesis using Cons.IH by simp
  qed
qed

text \<open>
  C6 (amended). If the library constructs the ranges of every top-level module (the
  range \<open>=version\<close>, and \<open><= version\<close> for a module with a version), the store built from
  the Puppetfile holds exactly one requirement per top-level module, in declaration
  order, each with source Puppetfile, the module as target, no source module and the
  range \<open>=version\<close>; the dependent modules contribute nothing, and dequeuing as often as
  there are top-level modules yields the requirements in that order and empties the
  store. If the library refuses a range of some top-level module, \<open>withPuppetFile\<close>
  throws its \<open>TypeError\<close> and there is no store.
\<close>

theorem withPuppetFile_fifo:
  "(list_all (\<lambda>m. puppetfileRange lib hp m \<noteq> None) (pf_modules pf) \<longrightarrow>
      store_withPuppetFile lib hp pf [] =
        Inr (map (\<lambda>m. \<lparr>targetModule = Some m, sourceModule = None, source = Some Puppetfile,
                         dependencyRange = puppetfileRange lib hp m\<rparr>) (pf_modules pf))
      \<and> dequeues (length (pf_modules pf))
           (map (\<lambda>m. \<lparr>targetModule = Some m, sourceModule = None, source = Some Puppetfile,
                       dependencyRange = puppetfileRange lib hp m\<rparr>) (pf_modules pf))
          = (map (\<lambda>m. Some \<lparr>targetModule = Some m, sourceModule = None,
                             source = Some Puppetfile,
                             dependencyRange = puppetfileRange lib hp m\<rparr>) (pf_modules pf), []))
   \<and> (\<not> list_all (\<lambda>m. puppetfileRange lib hp m \<noteq> None) (pf_modules pf) \<longrightarrow>
        (\<exists>w. store_withPuppetFile lib hp pf [] = Inl (TypeError w)))"
proof (intro conjI impI)
  let ?f = "\<lambda>m. \<lparr>targetModule = Some m, sourceModule = None, source = Some Puppetfile,
               dependencyRange = puppetfileRange lib hp m\<rparr>"
  assume a: "list_all (\<lambda>m. puppetfileRange lib hp m \<noteq> None) (pf_modules pf)"
  from addPuppetfileRequirements_all [OF a, of "[]"]
  show "store_withPuppetFile lib hp pf [] = Inr (map ?f (pf_modules pf))"
    by (simp add: store_withPuppetFile_def)
  have "dequeues (length (map ?f (pf_modules pf))) (map ?f (pf_modules pf))
          = (map Some (map ?f (pf_modules pf)), [])"
    by (rule dequeues_map)
  then show "dequeues (length (pf_modules pf)) (map ?f (pf_modules pf))
               = (map (\<lambda>m. Some (?f m)) (pf_modules pf), [])"
    by (simp add: comp_def)
next
  assume "\<not> list_all (\<lambda>m. puppetfileRange lib hp m \<noteq> None) (pf_modules pf)"
  from addPuppetfileRequirements_throws [OF this, of "[]"]
  show "\<exists>w. store_withPuppetFile lib hp pf [] = Inl (TypeError w)"
    by (simp add: store_withPuppetFile_def)
qed

theorem withPuppetFile_fifo_witness:
  "list_all (\<lambda>m. puppetfileRange semver twice_heap m \<noteq> None)
     (pf_modules (sourcePuppetfile twice_resolver))
   \<and> store_withPuppetFile semver twice_heap (sourcePuppetfile twice_resolver) []
       = Inr [\<lparr>targetModule = Some 0, sourceModule = None, source = Some Puppetfile,
               dependencyRange = Some (Range ''=1.0.0'' ''1.0.0'')\<rparr>,
              \<lparr>targetModule = Some 1, sourceModule = None, source = Some Puppetfile,
               dependencyRange = Some (Range ''=2.0.0'' ''2.0.0'')\<rparr>,
              \<lparr>targetModule = Some 2, sourceModule = None, source = Some Puppetfile,
               dependencyRange = Some (Range ''=1.0.0'' ''1.0.0'')\<rparr>]
   \<and> \<not> list_all (\<lambda>m. puppetfileRange semver unversioned_heap m \<noteq> None)
          (pf_modules single_puppetfile)
   \<and> (\<exists>w. store_withPuppetFile semver unversioned_heap single_puppetfile []
              = Inl (TypeError w))"
proof -
  have u: "\<not> list_all (\<lambda>m. puppetfileRange semver unversioned_heap m \<noteq> None)
             (pf_modules single_puppetfile)"
    by code_simp
  have h: "list_all (\<lambda>m. puppetfileRange semver twice_heap m \<noteq> None)
             (pf_modules (sourcePuppetfile twice_resolver))"
    by code_simp
  have m: "map (\<lambda>m. \<lparr>targetModule = Some m, sourceModule = None, source = Some Puppetfile,
                       dependencyRange = puppetfileRange semver twice_heap m\<rparr>)
             (pf_modules (sourcePuppetfile twice_resolver))
          = [\<lparr>targetModule = Some 0, sourceModule = None, source = Some Puppetfile,
               dependencyRange = Some (Range ''=1.0.0'' ''1.0.0'')\<rparr>,
              \<lparr>targetModule = Some 1, sourceModule = None, source = Some Puppetfile,
               dependencyRange = Some (Range ''=2.0.0'' ''2.0.0'')\<rparr>,
              \<lparr>targetModule = Some 2, sourceModule = None, source = Some Puppetfile,
               dependencyRange = Some (Range ''=1.0.0'' ''1.0.0'')\<rparr>]"
    by code_simp
  from withPuppetFile_fifo [of semver twice_heap "sourcePuppetfile twice_resolver"] h
  have 1: "store_withPuppetFile semver twice_heap (sourcePuppetfile twice_resolver) []
       = Inr [\<lparr>targetModule = Some 0, sourceModule = None, source = Some Puppetfile,
               dependencyRange = Some (Range ''=1.0.0'' ''1.0.0'')\<rparr>,
              \<lparr>targetModule = Some 1, sourceModule = None, source = Some Puppetfile,
               dependencyRange = Some (Range ''=2.0.0'' ''2.0.0'')\<rparr>,
              \<lparr>targetModule = Some 2, sourceModule = None, source = Some Puppetfile,
               dependencyRange = Some (Range ''=1.0.0'' ''1.0.0'')\<rparr>]"
    unfolding m by simp
  from withPuppetFile_fifo [of semver unversioned_heap single_puppetfile] u
  have 2: "\<exists>w. store_withPuppetFile semver unversioned_heap single_puppetfile []
              = Inl (TypeError w)"
    by blast
  from h 1 u 2 show ?thesis by blast
qed

text \<open>
  C6 as stated fails for a top-level module without a version: the library refuses the
  range \<open>=\<close>, and \<open>withPuppetFile\<close> throws instead of queueing a requirement.
\<close>

theorem withPuppetFile_throws:
  "store_withPuppetFile semver unversioned_heap single_puppetfile [] = Inl (TypeError ''='')"
  by code_simp

text \<open>
  C4. \<open>deleteSourceRequirements\<close> is documented to remove the requirements that have
  the given source module. It keeps only the requirements that have a source module
  with another slug, so it removes every requirement of the Puppetfile as well: the
  store of the single-module Puppetfile is empty after deleting the requirements of an
  unrelated source.
\<close>

theorem deleteSourceRequirements_drops_puppetfile_requirement:
  "store_withPuppetFile semver single_heap single_puppetfile [] =
     Inr [\<lparr>targetModule = Some 0, sourceModule = None, source = Some Puppetfile,
           dependencyRange = Some (Range ''=1.2.3'' ''1.2.3'')\<rparr>]
   \<and> deleteSourceRequirements single_heap ''test-other''
        [\<lparr>targetModule = Some 0, sourceModule = None, source = Some Puppetfile,
          dependencyRange = Some (Range ''=1.2.3'' ''1.2.3'')\<rparr>] = []"
  by code_simp

section \<open>Graph validity\<close>

text \<open>
  C7 (amended). For a module whose node is in the graph, \<open>isValid\<close> returns true if and
  only if the module's version is unset (or empty) or every incoming edge of the node
  carries a range that the version satisfies. For a module whose node is not in the
  graph it throws the error of the graph library, whatever the version.
\<close>

theorem isValid_iff:
  "(hasNode g (getSlug m) \<longrightarrow>
      isValid sat g m =
        Inr (\<not> truthy (version m) \<or>
             (\<forall>e \<in> set (inEdgesOf g (getSlug m)).
                 case dependencyRange (edge_attrs e) of
                   None \<Rightarrow> False
                 | Some rg \<Rightarrow> sat (the (version m)) rg)))
   \<and> (\<not> hasNode g (getSlug m) \<longrightarrow> (\<exists>msg. isValid sat g m = Inl (GraphError msg)))"
  by (auto simp: isValid_def everyInEdge_def edgeSatisfied_def list_all_iff split: option.splits)

theorem isValid_iff_witness:
  "hasNode (graph (search_state ''>=0.9.0'' ''>=1.0.0''))
     (getSlug (ex_module ''test'' ''target'' (Some ''0.9.0'')))
   \<and> isValid semver_satisfies (graph (search_state ''>=0.9.0'' ''>=1.0.0''))
       (ex_module ''test'' ''target'' (Some ''0.9.0'')) = Inr False
   \<and> isValid semver_satisfies (graph (search_state ''>=0.9.0'' ''>=1.0.0''))
       (ex_module ''test'' ''target'' (Some ''1.0.0'')) = Inr True
   \<and> isValid semver_satisfies (graph (search_state ''>=0.9.0'' ''>=1.0.0''))
       (ex_module ''test'' ''target'' None) = Inr True
   \<and> \<not> hasNode empty_graph (getSlug (ex_module ''test'' ''target'' (Some ''1.0.0'')))
   \<and> (\<exists>msg. isValid semver_satisfies empty_graph (ex_module ''test'' ''target'' (Some ''1.0.0''))
               = Inl (GraphError msg))"
proof -
  let ?g = "graph (search_state ''>=0.9.0'' ''>=1.0.0'')"
  have h: "hasNode ?g (getSlug (ex_module ''test'' ''target'' v))" for v
    by (simp add: hasNode_def search_state_def getSlug_def ex_module_def)
  have n: "\<not> hasNode empty_graph (getSlug (ex_module ''test'' ''target'' (Some ''1.0.0'')))"
    by (simp add: hasNode_def empty_graph_def)
  have a: "(\<not> truthy (version (ex_module ''test'' ''target'' (Some ''0.9.0''))) \<or>
             (\<forall>e \<in> set (inEdgesOf ?g (getSlug (ex_module ''test'' ''target'' (Some ''0.9.0'')))).
                 (case dependencyRange (edge_attrs e) of
                    None \<Rightarrow> False
                  | Some rg \<Rightarrow> semver_satisfies
                       (the (version (ex_module ''test'' ''target'' (Some ''0.9.0'')))) rg))) = False"
    by code_simp
  have b: "(\<not> truthy (version (ex_module ''test'' ''target'' (Some ''1.0.0''))) \<or>
             (\<forall>e \<in> set (inEdgesOf ?g (getSlug (ex_module ''test'' ''target'' (Some ''1.0.0'')))).
                 (case dependencyRange (edge_attrs e) of
                    None \<Rightarrow> False
                  | Some rg \<Rightarrow> semver_satisfies
                       (the (version (ex_module ''test'' ''target'' (Some ''1.0.0'')))) rg))) = True"
    by code_simp
  have c: "\<not> truthy (version (ex_module ''test'' ''target'' None))"
    by (simp add: ex_module_def)
  show ?thesis
    using isValid_iff [of ?g "ex_module ''test'' ''target'' (Some ''0.9.0'')" semver_satisfies]
          isValid_iff [of ?g "ex_module ''test'' ''target'' (Some ''1.0.0'')" semver_satisfies]
          isValid_iff [of ?g "ex_module ''test'' ''target'' None" semver_satisfies]
          isValid_iff [of empty_graph "ex_module ''test'' ''target'' (Some ''1.0.0'')"
                          semver_satisfies]
          h [of "Some ''0.9.0''"] h [of "Some ''1.0.0''"] h [of None] n a b c
    by simp
qed

text \<open>
  C7 as stated fails for a module that has no node in the graph: \<open>isValid\<close> throws,
  also when the version is unset.
\<close>

theorem isValid_throws_without_node:
  "isValid semver_satisfies empty_graph (ex_module ''test'' ''target'' None)
     = Inl (GraphError ''everyInEdge: node not found'')"
  by code_simp
section \<open>The version search\<close>

declare search_loop.simps [simp del]

lemma isValid_version:
  assumes "hasNode g (getSlug m)" "version m = Some v" "v \<noteq> []"
  shows "isValid sat g m = Inr (graphValidates sat g (getSlug m) v)"
proof -
  have "edgeSatisfied sat m =
          (\<lambda>e. case dependencyRange (edge_attrs e) of None \<Rightarrow> False | Some rg \<Rightarrow> sat v rg)"
    using assms(2,3) by (intro ext) (simp add: edgeSatisfied_def split: option.splits)
  then show ?thesis using assms(1)
    by (simp add: isValid_def everyInEdge_def graphValidates_def)
qed

lemma getAvailableVersions_again:
  assumes "getAvailableVersions fg m c = Inr (rel, c1)"
  shows "getAvailableVersions fg m c1 = Inr (rel, c1)"
proof -
  from assms have u: "truthy (forgeApiUrl m)"
    and g: "getReleases fg (author m) (name m) c = Inr (rel, c1)"
    by (auto simp: getAvailableVersions_def split: if_splits)
  from getReleases_cached [OF g] u show ?thesis
    by (simp add: getAvailableVersions_def getReleases_def)
qed

lemma getAvailableVersions_updated:
  assumes "truthy (forgeApiUrl m)"
  shows "getAvailableVersions fg m (updateAvailableReleases (author m) (name m) l c)
           = Inr (l, updateAvailableReleases (author m) (name m) l c)"
  using assms
  by (simp add: getAvailableVersions_def getReleases_def updateAvailableReleases_def
                update_conv Let_def)

lemma getAvailableVersions_cong:
  assumes "author m' = author m" "name m' = name m" "forgeApiUrl m' = forgeApiUrl m"
  shows "getAvailableVersions fg m' c = getAvailableVersions fg m c"
  using assms by (simp add: getAvailableVersions_def)

lemma hasAvailableVersion_eq:
  assumes "getAvailableVersions fg m c = Inr (rel, c1)"
  shows "hasAvailableVersion fg m c = Inr (rel \<noteq> [], c1)"
  using assms by (auto simp: hasAvailableVersion_def getAvailableVersions_def split: if_splits)

lemma getNextAvailableVersion_eq:
  assumes "getAvailableVersions fg m c = Inr (v # vs, c1)"
  shows "getNextAvailableVersion fg m c
           = Inr (Some v, updateAvailableReleases (author m) (name m) vs c1)"
  using assms
  by (auto simp: getNextAvailableVersion_def getAvailableVersions_def split: if_splits)

lemma addAvailableVersion_eq:
  assumes "getAvailableVersions fg m c = Inr (vs, c1)"
  shows "addAvailableVersion fg m v c
           = Inr (updateAvailableReleases (author m) (name m) (v # vs) c1)"
  using assms by (auto simp: addAvailableVersion_def getAvailableVersions_def split: if_splits)

lemma setVersion_at:
  "t < length (modules s) \<Longrightarrow> version (modules (setVersion t v s) ! t) = v"
  by (simp add: setVersion_def)

lemma setVersion_proj:
  "graph (setVersion t v s) = graph s" "store (setVersion t v s) = store s"
  "cache (setVersion t v s) = cache s" "warnings (setVersion t v s) = warnings s"
  "length (modules (setVersion t v s)) = length (modules s)"
  by (simp_all add: setVersion_def)

lemma getSlug_cong: "author m' = author m \<Longrightarrow> name m' = name m \<Longrightarrow> getSlug m' = getSlug m"
  by (simp add: getSlug_def)

lemma isValid_empty_version:
  assumes "hasNode g (getSlug m)" "\<not> truthy (version m)"
  shows "isValid sat g m = Inr True"
  using assms by (simp add: isValid_def everyInEdge_def edgeSatisfied_def list_all_iff)

lemma search_loop_result:
  assumes "getAvailableVersions fg (modules s ! t) (cache s) = Inr (rel, c1)"
    and "t < length (modules s)"
    and "hasNode (graph s) (slugOf (modules s) t)"
  shows "case dropWhile (\<lambda>v. \<not> searchAccepts sat (graph s) (slugOf (modules s) t) v) rel of
           [] \<Rightarrow> \<exists>s'. search_loop sat fg t s = Inr (False, s')
                   \<and> getAvailableVersions fg (modules s' ! t) (cache s') = Inr ([], cache s')
         | v # rest \<Rightarrow> \<exists>s'. search_loop sat fg t s = Inr (True, s')
                   \<and> version (modules s' ! t) = Some v
                   \<and> getAvailableVersions fg (modules s' ! t) (cache s') = Inr (v # rest, cache s')"
  using assms
proof (induction rel arbitrary: s c1)
  case Nil
  have h: "hasAvailableVersion fg (modules s ! t) (cache s) = Inr (False, c1)"
    using hasAvailableVersion_eq [OF Nil(1)] by simp
  have "search_loop sat fg t s = Inr (False, s\<lparr>cache := c1\<rparr>)"
    by (subst search_loop.simps) (simp add: h)
  moreover have "getAvailableVersions fg (modules s ! t) c1 = Inr ([], c1)"
    using getAvailableVersions_again [OF Nil(1)] .
  ultimately show ?case by simp
next
  case (Cons v vs)
  let ?m = "modules s ! t"
  let ?c2 = "updateAvailableReleases (author ?m) (name ?m) vs c1"
  let ?s2 = "setVersion t (Some v) (s\<lparr>cache := ?c2\<rparr>)"
  let ?m2 = "modules (setVersion t (Some v) s) ! t"
  have url: "truthy (forgeApiUrl ?m)"
    using Cons.prems(1) by (auto simp: getAvailableVersions_def split: if_splits)
  have h: "hasAvailableVersion fg ?m (cache s) = Inr (True, c1)"
    using hasAvailableVersion_eq [OF Cons.prems(1)] by simp
  have n: "getNextAvailableVersion fg ?m c1 = Inr (Some v, ?c2)"
    using getNextAvailableVersion_eq [OF getAvailableVersions_again [OF Cons.prems(1)]] .
  have same: "author ?m2 = author ?m" "name ?m2 = name ?m" "forgeApiUrl ?m2 = forgeApiUrl ?m"
    using setVersion_slug [of t "Some v" s] by simp_all
  have ver: "version ?m2 = Some v" using Cons.prems(2) by (simp add: setVersion_at)
  have slug2: "getSlug ?m2 = slugOf (modules s) t"
    using getSlug_cong [OF same(1,2)] by (simp add: slugOf_def)
  have node2: "hasNode (graph s) (getSlug ?m2)" using Cons.prems(3) slug2 by simp
  have m2': "modules ?s2 ! t = ?m2" by (simp add: setVersion_def)
  have av2: "getAvailableVersions fg ?m2 ?c2 = Inr (vs, ?c2)"
    using getAvailableVersions_updated [OF url, of fg vs c1]
          getAvailableVersions_cong [OF same, of fg ?c2] by simp
  show ?case
  proof (cases "searchAccepts sat (graph s) (slugOf (modules s) t) v")
    case True
    then have vne: "v \<noteq> []" and gv: "graphValidates sat (graph s) (slugOf (modules s) t) v"
      by (simp_all add: searchAccepts_def)
    have iv: "isValid sat (graph s) ?m2 = Inr True"
      using isValid_version [OF node2 ver vne, of sat] gv slug2 by simp
    let ?c3 = "updateAvailableReleases (author ?m) (name ?m) (v # vs) ?c2"
    let ?s3 = "setVersion t (Some v) (s\<lparr>cache := ?c3\<rparr>)"
    have ad: "addAvailableVersion fg ?m2 v ?c2 = Inr ?c3"
      using addAvailableVersion_eq [OF av2, of v] same by simp
    have "search_loop sat fg t s = Inr (True, ?s3)"
      by (subst search_loop.simps) (simp add: h n iv ver vne ad)
    moreover have "version (modules ?s3 ! t) = Some v"
      using Cons.prems(2) by (simp add: setVersion_def)
    moreover have m3: "modules ?s3 ! t = ?m2" by (simp add: setVersion_def)
    moreover have "getAvailableVersions fg ?m2 ?c3 = Inr (v # vs, ?c3)"
      using getAvailableVersions_updated [OF url, of fg "v # vs" ?c2]
            getAvailableVersions_cong [OF same, of fg ?c3] by simp
    ultimately show ?thesis using True by (simp add: setVersion_proj)
  next
    case False
    have "\<exists>ok. isValid sat (graph s) ?m2 = Inr ok \<and> \<not> (ok \<and> truthy (version ?m2))"
    proof (cases "v = []")
      case True
      then have "\<not> truthy (version ?m2)" using ver by simp
      with isValid_empty_version [OF node2 this, of sat] show ?thesis by blast
    next
      case ne: False
      then have "isValid sat (graph s) ?m2 = Inr False"
        using isValid_version [OF node2 ver ne, of sat] False slug2
        by (simp add: searchAccepts_def)
      then show ?thesis by blast
    qed
    then obtain ok where iv: "isValid sat (graph s) ?m2 = Inr ok"
      and no: "\<not> (ok \<and> truthy (version ?m2))" by blast
    from no have no': "(ok \<and> truthy (version ?m2)) = False" by simp
    have step: "search_loop sat fg t s = search_loop sat fg t ?s2"
      by (subst search_loop.simps) (simp add: h n iv no')
    have p1: "getAvailableVersions fg (modules ?s2 ! t) (cache ?s2) = Inr (vs, ?c2)"
      using av2 m2' by (simp add: setVersion_proj)
    have p2: "t < length (modules ?s2)" using Cons.prems(2) by (simp add: setVersion_proj)
    have sl: "slugOf (modules ?s2) t = slugOf (modules s) t"
      using slug2 m2' by (simp add: slugOf_def)
    have p3: "hasNode (graph ?s2) (slugOf (modules ?s2) t)"
      using Cons.prems(3) sl by (simp add: setVersion_proj)
    have g2: "graph ?s2 = graph s" by (simp add: setVersion_proj)
    have dw: "dropWhile (\<lambda>v. \<not> searchAccepts sat (graph s) (slugOf (modules s) t) v) (v # vs)
                = dropWhile (\<lambda>v. \<not> searchAccepts sat (graph s) (slugOf (modules s) t) v) vs"
      using False by simp
    from Cons.IH [OF p1 p2 p3] show ?thesis
      unfolding dw step sl g2 .
  qed
qed

lemma setVersion_other:
  "i \<noteq> t \<Longrightarrow> modules (setVersion t v s) ! i = modules s ! i"
  by (simp add: setVersion_def)

lemma setVersion_cache_upd:
  "modules (setVersion t v (s\<lparr>cache := c\<rparr>)) = modules (setVersion t v s)"
  "graph (setVersion t v (s\<lparr>cache := c\<rparr>)) = graph s"
  "store (setVersion t v (s\<lparr>cache := c\<rparr>)) = store s"
  "warnings (setVersion t v (s\<lparr>cache := c\<rparr>)) = warnings s"
  by (simp_all add: setVersion_def)

lemma setVersion_getSlug:
  "getSlug (modules (setVersion t v s) ! t) = getSlug (modules s ! t)"
  using setVersion_slug [of t v s] by (simp add: getSlug_def)


lemma searchFrame_cache: "searchFrame t s (s\<lparr>cache := c\<rparr>)"
  by (simp add: searchFrame_def)

lemma searchFrame_setVersion: "searchFrame t s (setVersion t v (s\<lparr>cache := c\<rparr>))"
  by (simp add: searchFrame_def setVersion_cache_upd setVersion_proj setVersion_other setVersion_getSlug)

lemma searchFrame_trans:
  "searchFrame t s s1 \<Longrightarrow> searchFrame t s1 s2 \<Longrightarrow> searchFrame t s s2"
  by (simp add: searchFrame_def)

lemma search_loop_frame:
  "search_loop sat fg t s = Inr (b, s') \<Longrightarrow>
     searchFrame t s s' \<and> (b \<longrightarrow> isValid sat (graph s') (modules s' ! t) = Inr True)"
proof (induction sat fg t s arbitrary: b s' rule: search_loop.induct)
  case (1 sat fg t s)
  from "1.prems" obtain avail c1 where
    h: "hasAvailableVersion fg (modules s ! t) (cache s) = Inr (avail, c1)"
    by (subst (asm) search_loop.simps) (auto split: sum.splits)
  show ?case
  proof (cases avail)
    case False
    with "1.prems" h have "s' = s\<lparr>cache := c1\<rparr>" "b = False"
      by (subst (asm) search_loop.simps, simp)+
    then show ?thesis by (simp add: searchFrame_cache)
  next
    case True
    with "1.prems" h obtain v c2 where
      n: "getNextAvailableVersion fg (modules s ! t) c1 = Inr (v, c2)"
      by (subst (asm) search_loop.simps) (auto split: sum.splits)
    with "1.prems" h True obtain ok where
      iv: "isValid sat (graph s) (modules (setVersion t v s) ! t) = Inr ok"
      by (subst (asm) search_loop.simps) (auto split: sum.splits)
    show ?thesis
    proof (cases "ok \<and> truthy (version (modules (setVersion t v s) ! t))")
      case found: True
      with "1.prems" h True n iv obtain c3 where
        "s' = setVersion t v (s\<lparr>cache := c3\<rparr>)" "b = True"
        by (subst (asm) search_loop.simps) (auto split: sum.splits)
      then show ?thesis using iv found
        by (simp add: searchFrame_setVersion setVersion_cache_upd)
    next
      case notfound: False
      with "1.prems" h True n iv have
        rec: "search_loop sat fg t (setVersion t v (s\<lparr>cache := c2\<rparr>)) = Inr (b, s')"
        by (subst (asm) search_loop.simps) (auto split: sum.splits)
      from "1.IH" [OF h refl _ n refl iv notfound rec] True
      have "searchFrame t (setVersion t v (s\<lparr>cache := c2\<rparr>)) s'
            \<and> (b \<longrightarrow> isValid sat (graph s') (modules s' ! t) = Inr True)" by simp
      then show ?thesis
        using searchFrame_trans [OF searchFrame_setVersion [of t s v c2]] by blast
    qed
  qed
qed



lemma searchFrame_slugOf: "searchFrame t s s' \<Longrightarrow> slugOf (modules s') i = slugOf (modules s) i"
  by (cases "i = t") (simp_all add: searchFrame_def slugOf_def)

lemma searchFrame_error:
  "searchFrame t s s' \<Longrightarrow> new_NoVersionFoundError (modules s') r = new_NoVersionFoundError (modules s) r"
  by (simp add: new_NoVersionFoundError_def searchFrame_slugOf cong: option.case_cong)

lemma hasAvailableVersion_error:
  "getAvailableVersions fg m c = Inl e \<Longrightarrow> hasAvailableVersion fg m c = Inl e"
  by (auto simp: hasAvailableVersion_def getAvailableVersions_def no_forge_url_def
           split: if_splits)

text \<open>
  C2 (amended). What \<open>getNewVersion\<close> does with a requirement, for every requirement.
  Without a target it returns the empty text. With a target whose node is not in the
  graph, the validator throws and so does \<open>getNewVersion\<close>. If the graph validates the
  target, it returns the target's version and changes nothing, the release list
  included. Otherwise the release list is fetched, which may fail; from the list \<open>rel\<close>
  the leading versions are dropped that are empty or that the graph does not validate.
  If a version \<open>v\<close> remains at the head, \<open>getNewVersion\<close> returns \<open>v\<close>, the target's
  version is \<open>v\<close>, and the cached release list is what remained, \<open>v\<close> at its head. If
  nothing remains, \<open>getNewVersion\<close> throws \<open>NoVersionFoundError\<close> with the slugs and the
  normalised range of the requirement, and the cached release list is empty. The graph,
  the queue and the other modules are as they were.
\<close>

theorem getNewVersion_search:
  assumes "\<forall>t. targetModule r = Some t \<longrightarrow> t < length (modules s)"
  shows "case targetModule r of
           None \<Rightarrow> getNewVersion sat fg r s = Inr ([], s)
         | Some t \<Rightarrow>
             (case isValid sat (graph s) (modules s ! t) of
                Inl e \<Rightarrow> getNewVersion sat fg r s = Inl (e, s)
              | Inr True \<Rightarrow> getNewVersion sat fg r s = Inr (or_empty (version (modules s ! t)), s)
              | Inr False \<Rightarrow>
                  (case getAvailableVersions fg (modules s ! t) (cache s) of
                     Inl e \<Rightarrow> getNewVersion sat fg r s = Inl (e, s)
                   | Inr (rel, c1) \<Rightarrow>
                       (case dropWhile (\<lambda>v. \<not> searchAccepts sat (graph s) (slugOf (modules s) t) v)
                               rel of
                          [] \<Rightarrow>
                            \<exists>s'. getNewVersion sat fg r s
                                   = Inl (new_NoVersionFoundError (modules s) r, s')
                               \<and> getAvailableVersions fg (modules s' ! t) (cache s')
                                   = Inr ([], cache s')
                               \<and> searchFrame t s s'
                        | v # rest \<Rightarrow>
                            \<exists>s'. getNewVersion sat fg r s = Inr (v, s')
                               \<and> version (modules s' ! t) = Some v
                               \<and> getAvailableVersions fg (modules s' ! t) (cache s')
                                   = Inr (v # rest, cache s')
                               \<and> searchFrame t s s')))"
proof (cases "targetModule r")
  case None
  then show ?thesis by (simp add: getNewVersion_def)
next
  case (Some t)
  with assms have tl: "t < length (modules s)" by simp
  show ?thesis
  proof (cases "isValid sat (graph s) (modules s ! t)")
    case (Inl e)
    then show ?thesis using Some by (simp add: getNewVersion_def)
  next
    case (Inr ok)
    show ?thesis
    proof (cases ok)
      case True
      then show ?thesis using Some Inr by (simp add: getNewVersion_def)
    next
      case False
      have node: "hasNode (graph s) (slugOf (modules s) t)"
        using Inr by (auto simp: isValid_def everyInEdge_def slugOf_def split: if_splits)
      have gn: "getNewVersion sat fg r s =
              (case search_loop sat fg t s of
                 Inl es \<Rightarrow> Inl es
               | Inr (False, s') \<Rightarrow> Inl (new_NoVersionFoundError (modules s') r, s')
               | Inr (True, s') \<Rightarrow> Inr (or_empty (version (modules s' ! t)), s'))"
        using Some Inr False by (simp add: getNewVersion_def)
      show ?thesis
      proof (cases "getAvailableVersions fg (modules s ! t) (cache s)")
        case av: (Inl e)
        have "search_loop sat fg t s = Inl (e, s)"
          by (subst search_loop.simps) (simp add: hasAvailableVersion_error [OF av])
        then show ?thesis using Some Inr False av gn by simp
      next
        case av: (Inr p)
        obtain rel c1 where p: "p = (rel, c1)" by (cases p)
        note sl = search_loop_result [OF av [unfolded p] tl node, of sat]
        let ?P = "\<lambda>v. \<not> searchAccepts sat (graph s) (slugOf (modules s) t) v"
        have "case dropWhile ?P rel of
                [] \<Rightarrow>
                  \<exists>s'. getNewVersion sat fg r s = Inl (new_NoVersionFoundError (modules s) r, s')
                     \<and> getAvailableVersions fg (modules s' ! t) (cache s') = Inr ([], cache s')
                     \<and> searchFrame t s s'
              | v # rest \<Rightarrow>
                  \<exists>s'. getNewVersion sat fg r s = Inr (v, s')
                     \<and> version (modules s' ! t) = Some v
                     \<and> getAvailableVersions fg (modules s' ! t) (cache s') = Inr (v # rest, cache s')
                     \<and> searchFrame t s s'"
        proof (cases "dropWhile ?P rel")
          case Nil
          with sl obtain s' where s': "search_loop sat fg t s = Inr (False, s')"
            "getAvailableVersions fg (modules s' ! t) (cache s') = Inr ([], cache s')" by auto
          from search_loop_frame [OF s'(1)] have fr: "searchFrame t s s'" by simp
          have "getNewVersion sat fg r s = Inl (new_NoVersionFoundError (modules s) r, s')"
            using gn s'(1) searchFrame_error [OF fr, of r] by simp
          with s'(2) fr show ?thesis unfolding Nil by auto
        next
          case (Cons v rest)
          with sl obtain s' where s': "search_loop sat fg t s = Inr (True, s')"
            "version (modules s' ! t) = Some v"
            "getAvailableVersions fg (modules s' ! t) (cache s') = Inr (v # rest, cache s')" by auto
          from search_loop_frame [OF s'(1)] have fr: "searchFrame t s s'" by simp
          have "getNewVersion sat fg r s = Inr (v, s')"
            using gn s'(1,2) by (simp add: or_empty_def)
          with s'(2,3) fr show ?thesis unfolding Cons by auto
        qed
        then show ?thesis using Some Inr False av p by simp
      qed
    qed
  qed
qed

theorem getNewVersion_search_witness:
  "targetModule (search_requirement ''>=0.9.0'') = Some 0
   \<and> 0 < length (modules (search_state ''>=0.9.0'' ''>=1.0.0''))
   \<and> isValid semver_satisfies (graph (search_state ''>=0.9.0'' ''>=1.0.0''))
        (modules (search_state ''>=0.9.0'' ''>=1.0.0'') ! 0) = Inr False
   \<and> (\<exists>s'. getNewVersion semver_satisfies search_forge (search_requirement ''>=0.9.0'')
             (search_state ''>=0.9.0'' ''>=1.0.0'') = Inr (''1.0.0'', s')
          \<and> version (modules s' ! 0) = Some ''1.0.0''
          \<and> getAvailableVersions search_forge (modules s' ! 0) (cache s')
               = Inr ([''1.0.0''], cache s'))"
proof -
  let ?s = "search_state ''>=0.9.0'' ''>=1.0.0''"
  let ?r = "search_requirement ''>=0.9.0''"
  have tm: "targetModule ?r = Some 0" by code_simp
  have h: "\<forall>t. targetModule ?r = Some t \<longrightarrow> t < length (modules ?s)"
    unfolding tm by (simp add: search_state_def)
  have iv: "isValid semver_satisfies (graph ?s) (modules ?s ! 0) = Inr False"
    by code_simp
  define c1 where
    "c1 = snd (projr (getAvailableVersions search_forge (modules ?s ! 0) (cache ?s)))"
  have av: "getAvailableVersions search_forge (modules ?s ! 0) (cache ?s)
              = Inr ([''0.9.0'', ''1.0.0''], c1)"
    unfolding c1_def by code_simp
  have dw: "dropWhile (\<lambda>v. \<not> searchAccepts semver_satisfies (graph ?s)
                                (slugOf (modules ?s) 0) v) [''0.9.0'', ''1.0.0'']
              = [''1.0.0'']"
    by code_simp
  from getNewVersion_search [OF h, of semver_satisfies search_forge]
  have "\<exists>s'. getNewVersion semver_satisfies search_forge ?r ?s = Inr (''1.0.0'', s')
          \<and> version (modules s' ! 0) = Some ''1.0.0''
          \<and> getAvailableVersions search_forge (modules s' ! 0) (cache s')
               = Inr ([''1.0.0''], cache s')
          \<and> searchFrame 0 ?s s'"
    unfolding tm option.case iv sum.case bool.case av prod.case dw list.case .
  moreover have "0 < length (modules ?s)" by (simp add: search_state_def)
  ultimately show ?thesis using tm iv by blast
qed

text \<open>
  C2 as stated fails where the release list holds an empty version text: the validator
  takes a module with an empty version for valid, yet the search goes past it and
  returns 1.0.0.
\<close>

theorem empty_version_skipped:
  "isValid semver_satisfies (graph (search_state ''>=1.0.0'' ''>=1.0.0''))
     ((modules (search_state ''>=1.0.0'' ''>=1.0.0'') ! 0)\<lparr>version := Some []\<rparr>) = Inr True
   \<and> map_sum id fst
        (getAvailableVersions empty_version_forge
           (modules (search_state ''>=1.0.0'' ''>=1.0.0'') ! 0) empty_cache)
       = Inr [[], ''1.0.0'']
   \<and> map_sum fst fst
        (getNewVersion semver_satisfies empty_version_forge (search_requirement ''>=1.0.0'')
           (search_state ''>=1.0.0'' ''>=1.0.0'')) = Inr ''1.0.0''"
  by code_simp
section \<open>The resolver keeps the edges of the graph satisfied\<close>













lemma refsBelow_append [simp]:
  "refsBelow n (xs @ ys) = (refsBelow n xs \<and> refsBelow n ys)"
  by (simp add: refsBelow_def)

























text \<open>
  The condition on the versions is needed for the nodes, also with an empty ignore list.
  Let the registry list no release of \<open>test-s\<close> and still answer for its releases 1.0.0
  and \<open>undefined\<close>. The node \<open>test-s\<close> carries the module of the Puppetfile, at 1.0.0.
  The dependency of \<open>test-a\<close> on \<open>test-s\<close> has a target of its own, without a version, so
  its edge with the range \<open>>=2.0.0\<close> is accepted, and the validator fails for the node's
  module.
\<close>

lemma node_invalid_without_agreement:
  "resolverState semver unreleased_heap (sourcePuppetfile unreleased_resolver) empty_cache
     = Inr unreleased_state
   \<and> ignoreList unreleased_resolver = []
   \<and> succeeded (resolve 20 semver unreleased_forge unreleased_resolver unreleased_state)
   \<and> map_option (edgesSatisfied (satisfies semver) [])
        (finalState (resolve 20 semver unreleased_forge unreleased_resolver unreleased_state))
       = Some True
   \<and> map_option (\<lambda>s'. map (\<lambda>nd. (node_key nd, versionsAgree s' nd)) (nodes (graph s')))
        (finalState (resolve 20 semver unreleased_forge unreleased_resolver unreleased_state))
       = Some [(''puppetfile'', False), (''test-a'', True), (''test-s'', False)]
   \<and> map_option (nodesValid (satisfies semver))
        (finalState (resolve 20 semver unreleased_forge unreleased_resolver unreleased_state))
       = Some False"
  by code_simp

section \<open>Invalid requirements\<close>

lemma resolveLoop_Suc:
  "store s = r # rest \<Longrightarrow>
   resolveLoop (Suc k) lib fg cfg s =
     (case processRequirement lib fg cfg r (s\<lparr>store := rest\<rparr>) of
        Inl e \<Rightarrow> Some (Inl (e, s\<lparr>store := rest\<rparr>))
      | Inr s1 \<Rightarrow> resolveLoop k lib fg cfg s1)"
  by (simp add: hasNextRequirement_def)

text \<open>
  C9 (amended). When the resolver dequeues a requirement whose target module or
  dependency range is missing, \<open>Requirement.isValid\<close> throws and \<open>resolve\<close> ends with
  that error; the requirement is not skipped.
\<close>

theorem invalid_requirement_aborts:
  assumes "store s = r # rest"
    and "targetModule r = None \<or> dependencyRange r = None"
  shows "\<exists>msg. req_isValid r = Inl (Thrown msg)
           \<and> resolveLoop (Suc k) lib fg cfg s = Some (Inl (Thrown msg, s\<lparr>store := rest\<rparr>))"
proof -
  from assms(2) have "\<exists>msg. req_isValid r = Inl (Thrown msg)"
    by (auto simp: req_isValid_def)
  then obtain msg where m: "req_isValid r = Inl (Thrown msg)" ..
  then have "processRequirement lib fg cfg r (s\<lparr>store := rest\<rparr>) = Inl (Thrown msg)"
    by (simp add: processRequirement_def)
  with m show ?thesis using resolveLoop_Suc [OF assms(1)] by simp
qed

theorem invalid_requirement_aborts_witness:
  "failure (resolveLoop 1 semver search_forge (ex_resolver [] [] [])
              ((search_state ''>=0.9.0'' ''>=0.9.0'')\<lparr>store := [no_target]\<rparr>))
     = Some (Thrown ''Requirement has no target module'', [])"
proof -
  let ?s = "(search_state ''>=0.9.0'' ''>=0.9.0'')\<lparr>store := [no_target]\<rparr>"
  have h1: "store ?s = no_target # []" by simp
  have h2: "targetModule no_target = None \<or> dependencyRange no_target = None"
    by (simp add: no_target_def new_Requirement_def)
  have v: "req_isValid no_target = Inl (Thrown ''Requirement has no target module'')"
    by (simp add: req_isValid_def no_target_def new_Requirement_def)
  from invalid_requirement_aborts [OF h1 h2, of 0 semver search_forge "ex_resolver [] [] []"] v
  have "resolveLoop 1 semver search_forge (ex_resolver [] [] []) ?s
          = Some (Inl (Thrown ''Requirement has no target module'', ?s\<lparr>store := []\<rparr>))"
    by auto
  then show ?thesis by (simp add: failure_def search_state_def)
qed

text \<open>
  C9 as stated fails: with a valid requirement alone in the queue the loop ends
  normally, and with a requirement without a dependency range in front of it the loop
  ends with the error thrown for the invalid requirement.
\<close>

theorem invalid_requirement_not_skipped:
  "succeeded (resolveLoop 5 semver search_forge (ex_resolver [] [] [])
                ((search_state ''>=0.9.0'' ''>=0.9.0'')\<lparr>store := [search_requirement ''>=0.9.0'']\<rparr>))
   \<and> failure (resolveLoop 5 semver search_forge (ex_resolver [] [] [])
                ((search_state ''>=0.9.0'' ''>=0.9.0'')
                   \<lparr>store := [no_range, search_requirement ''>=0.9.0'']\<rparr>))
       = Some (Thrown ''Requirement has no dependency range'', [])"
  by code_simp

section \<open>The ignore list\<close>

text \<open>
  C3 (amended). Let the loop dequeue a valid requirement with target \<open>t\<close> whose version
  search throws \<open>NoVersionFoundError\<close>. If the target's slug is on the ignore list, the
  resolver logs the warning and goes on with the rest of the queue: the outcome of
  \<open>resolve\<close> is that of the remaining loop. If the slug is not on the ignore list,
  \<open>resolve\<close> ends with that error.
\<close>

theorem noVersionFound_ignored:
  assumes "store s = r # rest" and "req_isValid r = Inr True" and "targetModule r = Some t"
    and "prepareRequirement cfg lib fg r t (s\<lparr>store := rest\<rparr>) = Inr s1"
    and "getNewVersion (satisfies lib) fg r s1 = Inl (NoVersionFoundError msg, s2)"
  shows "(slugOf (modules s2) t \<in> set (ignoreList cfg) \<longrightarrow>
            resolveLoop (Suc k) lib fg cfg s =
              resolveLoop k lib fg cfg
                (s2\<lparr>warnings := warnings s2 @ [msg @ '', but module is ignored. Continuing'']\<rparr>))
       \<and> (slugOf (modules s2) t \<notin> set (ignoreList cfg) \<longrightarrow>
            resolveLoop (Suc k) lib fg cfg s =
              Some (Inl (NoVersionFoundError msg, s\<lparr>store := rest\<rparr>)))"
  using assms(2-5) resolveLoop_Suc [OF assms(1), of k lib fg cfg]
  by (simp add: processRequirement_def selectVersion_def)

theorem noVersionFound_ignored_witness:
  "map_option (map_sum fst warnings)
     (resolveLoop 1 semver search_forge (ex_resolver [] [''test-target''] [])
        ((search_state ''>=0.9.0 <1.0.0'' ''>=1.0.0'')
           \<lparr>store := [search_requirement ''>=0.9.0 <1.0.0'']\<rparr>))
     = Some (Inr [''No possible version for requirement test-source1 => test-target (>=0.9.0 <1.0.0), but module is ignored. Continuing''])"
proof -
  let ?cfg = "ex_resolver [] [''test-target''] []"
  let ?r = "search_requirement ''>=0.9.0 <1.0.0''"
  let ?s0 = "search_state ''>=0.9.0 <1.0.0'' ''>=1.0.0''"
  let ?s = "?s0\<lparr>store := [?r]\<rparr>"
  let ?msg = "''No possible version for requirement test-source1 => test-target (>=0.9.0 <1.0.0)''"
  define s1 where "s1 = projr (prepareRequirement ?cfg semver search_forge ?r 0 (?s\<lparr>store := []\<rparr>))"
  define s2 where "s2 = snd (projl (getNewVersion (satisfies semver) search_forge ?r s1))"
  have h1: "store ?s = ?r # []" by simp
  have h2: "req_isValid ?r = Inr True" by code_simp
  have h3: "targetModule ?r = Some 0" by code_simp
  have h4: "prepareRequirement ?cfg semver search_forge ?r 0 (?s\<lparr>store := []\<rparr>) = Inr s1"
    unfolding s1_def by code_simp
  have h5: "getNewVersion (satisfies semver) search_forge ?r s1 = Inl (NoVersionFoundError ?msg, s2)"
    unfolding s2_def s1_def by code_simp
  have ig: "slugOf (modules s2) 0 \<in> set (ignoreList ?cfg)"
    unfolding s2_def s1_def by code_simp
  have w: "warnings s2 = []" and st: "store s2 = []"
    unfolding s2_def s1_def by code_simp+
  from noVersionFound_ignored [OF h1 h2 h3 h4 h5, of 0] ig
  have "resolveLoop 1 semver search_forge ?cfg ?s =
          resolveLoop 0 semver search_forge ?cfg
            (s2\<lparr>warnings := warnings s2 @ [?msg @ '', but module is ignored. Continuing'']\<rparr>)"
    by simp
  then show ?thesis using w st by (simp add: hasNextRequirement_def)
qed

text \<open>
  C3 as stated fails: after the swallowed error the loop goes on and may still fail. In
  the resolver test with \<open>test-wrongdepc\<close> ignored, let \<open>test-wrongdepb\<close> need the
  deprecated \<open>test-deprecated\<close> too: the warning for \<open>test-wrongdepc\<close> is logged, and
  \<open>resolve\<close> ends with the deprecation error of the next requirement.
\<close>

theorem ignored_error_then_failure:
  "resolverState semver wrongdep_heap (sourcePuppetfile wrongdep_resolver) empty_cache
     = Inr wrongdep_state
   \<and> failure (resolve 20 semver (wrongdep_forge [ex_dep ''test/deprecated'' ''>=1.0.0''])
              wrongdep_resolver wrongdep_state)
     = Some (DeprecatedModuleError
               ''Module test-deprecated is deprecated: Module was deprecated at 2023-06-12T14:14:00.000Z by other-module: some reason'',
             [''No possible version for requirement test-wrongdepb => test-wrongdepc (<1.2.3), but module is ignored. Continuing''])"
  by code_simp

section \<open>Top-level modules in the output\<close>

text \<open>
  C5. The Puppetfile declares \<open>test-app\<close> and, twice, \<open>test-tool\<close>; nothing is hidden
  or ignored. \<open>resolve\<close> returns a Puppetfile with the top-level module \<open>test-app\<close> and
  the dependent module \<open>test-lib\<close>: the top-level module \<open>test-tool\<close> is in neither
  list.
\<close>

theorem top_level_module_lost:
  "resolverState semver twice_heap (sourcePuppetfile twice_resolver) empty_cache
     = Inr twice_state
   \<and> map (slugOf twice_heap) (pf_modules (sourcePuppetfile twice_resolver))
     = [''test-app'', ''test-tool'', ''test-tool'']
   \<and> hideList twice_resolver = [] \<and> ignoreList twice_resolver = []
   \<and> resolved (resolve 20 semver twice_forge twice_resolver twice_state)
       = Some ([''test-app''], [''test-lib''])"
  by code_simp

section \<open>Writing a Puppetfile and reading the text back\<close>

subsection \<open>The lines of the emitted text\<close>








lemma plainLine_append [simp]: "plainLine (a @ b) \<longleftrightarrow> plainLine a \<and> plainLine b"
  by (auto simp: plainLine_def)

lemma plainLine_Cons [simp]: "plainLine (c # b) \<longleftrightarrow> c \<noteq> CHR 0x0A \<and> c \<noteq> CHR 0x0D \<and> plainLine b"
  by (auto simp: plainLine_def)

lemma plainLine_Nil [simp]: "plainLine []"
  by (simp add: plainLine_def)



lemma plain_modHead: "plainHead m \<Longrightarrow> plainLine (modHead m)"
  by (simp add: plainHead_def modHead_def)





lemma plain_gitParamLines: "plainGit m \<Longrightarrow> \<forall>l \<in> set (gitParamLines m). plainLine l"
  by (simp add: plainGit_def plainHead_def gitParamLines_def)







subsection \<open>Matching a declaration\<close>


lemma escapeFree_quote: "escapeFree w \<Longrightarrow> quote \<notin> set w"
  by (auto simp: escapeFree_def quote_def)


lemma dropWhile_until:
  "\<forall>x \<in> set a. P x \<Longrightarrow> \<not> P c \<Longrightarrow> dropWhile P (a @ c # r) = c # r"
  by (induction a) auto







lemma splitArrow_nonempty: "splitArrow v \<noteq> []"
  by (induction v rule: splitArrow.induct) (auto split: list.splits)














subsection \<open>Parsing line by line\<close>












lemma appendMod_fields [simp]:
  "t_forge (appendMod dep pf m) = t_forge pf"
  "t_dependencyIdentifier (appendMod dep pf m) = t_dependencyIdentifier pf"
  "t_preamble (appendMod dep pf m) = t_preamble pf"
  by (simp_all add: appendMod_def)























subsection \<open>Emitting what was parsed\<close>

























text \<open>
  The template escapes what it writes: a dependency identifier with \<open><\<close> in it is
  written as \<open>&lt;\<close>, the parser does not find the identifier in the emitted text, and
  the dependent module is read as a module of the Puppetfile.
\<close>

lemma escaped_identifier_not_read_back:
  "case fromText roundtrip_repos roundtrip_forge (toText identifier_puppetfile)
          (new_PuppetFile\<lparr>t_dependencyIdentifier := ''## <<dependencies''\<rparr>) empty_cache of
     Inl e \<Rightarrow> False
   | Inr (pf', c') \<Rightarrow>
       length (t_modules pf') = 4 \<and> t_dependentModules pf' = []
       \<and> toText pf' \<noteq> toText identifier_puppetfile"
  by code_simp

end
